theory Spec2Isabelle
  imports Complex_Main "HOL-Library.Word"
begin

section \<open>Signal synthesizer (class TinnitusAudioEngine, the create...Buffer methods)\<close>

text \<open>
  JavaScript numbers are modelled as real numbers: the rounding of IEEE doubles and of the
  Float32Array that holds the samples is left out. \<open>Math.random()\<close> is a stream
  \<open>rnd :: nat \<Rightarrow> real\<close> of the values the browser hands out (each in \<open>[0, 1)\<close>), read
  through a counter of the calls made so far, so that the order in which a generator
  draws its numbers is the order of the source.
\<close>

type_synonym rng = "nat \<Rightarrow> real"

text \<open>
  The state of one channel loop: the filter memory (\<open>lastOut\<close>, or \<open>b0 .. b6\<close>), the
  number of \<open>Math.random()\<close> calls made so far, and the channel data (a Float32Array of
  \<open>bufferSize\<close> zeros at first, written by index).
\<close>

record 'f channel_loop =
  filt :: 'f
  calls :: nat
  data :: "real list"

text \<open>\<open>for (let i = 0; i < n; i++) body\<close>: the state after \<open>n\<close> iterations.\<close>

primrec forLoop :: "(nat \<Rightarrow> 's \<Rightarrow> 's) \<Rightarrow> nat \<Rightarrow> 's \<Rightarrow> 's" where
  "forLoop body 0 st = st"
| "forLoop body (Suc i) st = body i (forLoop body i st)"

definition newChannel :: "'f \<Rightarrow> nat \<Rightarrow> nat \<Rightarrow> 'f channel_loop" where
  "newChannel f0 c bufferSize = \<lparr>filt = f0, calls = c, data = replicate bufferSize 0\<rparr>"

text \<open>A stereo buffer: the data of channel 0 and of channel 1.\<close>

type_synonym audio_buffer = "real list \<times> real list"

text \<open>
  \<open>for (let channel = 0; channel < 2; channel++)\<close>: channel 1 starts with fresh filter
  memory and goes on drawing where channel 0 stopped. The result is the buffer and the
  number of random draws made.
\<close>

definition runChannel ::
  "(nat \<Rightarrow> 'f channel_loop \<Rightarrow> 'f channel_loop) \<Rightarrow> 'f \<Rightarrow> nat \<Rightarrow> nat \<Rightarrow> 'f channel_loop" where
  "runChannel body f0 c bufferSize = forLoop body bufferSize (newChannel f0 c bufferSize)"

definition twoChannels ::
  "(nat \<Rightarrow> 'f channel_loop \<Rightarrow> 'f channel_loop) \<Rightarrow> 'f \<Rightarrow> nat \<Rightarrow> nat \<Rightarrow> audio_buffer \<times> nat" where
  "twoChannels body f0 c bufferSize =
     (let ch0 = runChannel body f0 c bufferSize;
          ch1 = runChannel body f0 (calls ch0) bufferSize
      in ((data ch0, data ch1), calls ch1))"

subsection \<open>White noise\<close>

definition whiteNoiseSample :: "rng \<Rightarrow> nat \<Rightarrow> unit channel_loop \<Rightarrow> unit channel_loop" where
  "whiteNoiseSample rnd i st =
     st\<lparr>calls := calls st + 1, data := (data st)[i := rnd (calls st) * 2 - 1]\<rparr>"

definition createWhiteNoiseBuffer :: "rng \<Rightarrow> nat \<Rightarrow> nat \<Rightarrow> nat \<Rightarrow> audio_buffer \<times> nat" where
  "createWhiteNoiseBuffer rnd c sampleRate duration =
     twoChannels (whiteNoiseSample rnd) () c (sampleRate * duration)"

subsection \<open>Rain and Wave: brown noise\<close>

definition rainSample :: "rng \<Rightarrow> nat \<Rightarrow> real channel_loop \<Rightarrow> real channel_loop" where
  "rainSample rnd i st =
     (let white = rnd (calls st) * 2 - 1;
          out = (filt st + (0.02 * white)) / 1.002;
          d = (data st)[i := out * 2]
      in if rnd (calls st + 1) > 0.9995
         then \<lparr>filt = out, calls = calls st + 3,
               data = d[i := d ! i + (rnd (calls st + 2) * 2 - 1) * 0.5]\<rparr>
         else \<lparr>filt = out, calls = calls st + 2, data = d\<rparr>)"

definition createRainBuffer :: "rng \<Rightarrow> nat \<Rightarrow> nat \<Rightarrow> nat \<Rightarrow> audio_buffer \<times> nat" where
  "createRainBuffer rnd c sampleRate duration =
     twoChannels (rainSample rnd) 0 c (sampleRate * duration)"

definition waveLfo :: "nat \<Rightarrow> nat \<Rightarrow> real" where
  "waveLfo bufferSize i = 0.5 + 0.5 * sin ((real i / real bufferSize) * pi * 2)"

definition waveSample :: "rng \<Rightarrow> nat \<Rightarrow> nat \<Rightarrow> real channel_loop \<Rightarrow> real channel_loop" where
  "waveSample rnd bufferSize i st =
     (let white = rnd (calls st) * 2 - 1;
          out = (filt st + (0.02 * white)) / 1.002
      in \<lparr>filt = out, calls = calls st + 1,
          data = (data st)[i := out * 4 * waveLfo bufferSize i]\<rparr>)"

definition createWaveBuffer :: "rng \<Rightarrow> nat \<Rightarrow> nat \<Rightarrow> nat \<Rightarrow> audio_buffer \<times> nat" where
  "createWaveBuffer rnd c sampleRate duration =
     twoChannels (waveSample rnd (sampleRate * duration)) 0 c (sampleRate * duration)"

text \<open>
  The formula of the specification, \<open>out = (prev + k * white) / (1 + k)\<close>, written down
  from its words to be compared with the loops above.
\<close>

definition leakyIntegrator :: "real \<Rightarrow> real \<Rightarrow> real \<Rightarrow> real" where
  "leakyIntegrator k prev white = (prev + k * white) / (1 + k)"

text \<open>A random source that always returns \<open>0.75\<close>, used to run the loops on an input.\<close>

definition steadyRandom :: rng where
  "steadyRandom n = 3 / 4"

subsection \<open>Forest, Night and Temple: pink noise\<close>

record pink =
  b0 :: real
  b1 :: real
  b2 :: real
  b3 :: real
  b4 :: real
  b5 :: real
  b6 :: real

definition pinkZero :: pink where
  "pinkZero = \<lparr>b0 = 0, b1 = 0, b2 = 0, b3 = 0, b4 = 0, b5 = 0, b6 = 0\<rparr>"

text \<open>
  The seven filter lines that the Forest, Night and Temple loops repeat word for word:
  the new filter memory and the value \<open>out\<close>.
\<close>

definition pinkStep :: "real \<Rightarrow> pink \<Rightarrow> pink \<times> real" where
  "pinkStep white p =
     (let n0 = 0.99886 * b0 p + white * 0.0555179;
          n1 = 0.99332 * b1 p + white * 0.0750759;
          n2 = 0.96900 * b2 p + white * 0.1538520;
          n3 = 0.86650 * b3 p + white * 0.3104856;
          n4 = 0.55000 * b4 p + white * 0.5329522;
          n5 = - 0.7616 * b5 p - white * 0.0168980;
          out = (n0 + n1 + n2 + n3 + n4 + n5 + b6 p + white * 0.5362) * 0.11
      in (\<lparr>b0 = n0, b1 = n1, b2 = n2, b3 = n3, b4 = n4, b5 = n5, b6 = white * 0.115926\<rparr>,
          out))"

text \<open>
  The pink noise on its own: the filter memory after \<open>i\<close> samples of the white sequence
  \<open>w\<close>, and the value it gives at sample \<open>i\<close>.
\<close>

definition pinkMemory :: "(nat \<Rightarrow> real) \<Rightarrow> nat \<Rightarrow> pink" where
  "pinkMemory w i = forLoop (\<lambda>j p. fst (pinkStep (w j) p)) i pinkZero"

definition pinkOut :: "(nat \<Rightarrow> real) \<Rightarrow> nat \<Rightarrow> real" where
  "pinkOut w i = snd (pinkStep (w i) (pinkMemory w i))"

text \<open>The white sample of the \<open>j\<close>-th draw after \<open>c\<close> calls of \<open>Math.random()\<close>.\<close>

definition whiteAt :: "rng \<Rightarrow> nat \<Rightarrow> nat \<Rightarrow> real" where
  "whiteAt rnd c j = rnd (c + j) * 2 - 1"

text \<open>
  The envelope \<open>wind\<close> of the Forest loop, in exact arithmetic. The doubles of the code
  differ from it by their rounding: where the sine is \<open>-1\<close> (at \<open>i = 3N/8\<close> and
  \<open>7N/8\<close>) the exact value is \<open>0.4\<close> and the code computes \<open>0.39999999999999997\<close>.
  Bounds on the envelope are therefore stated with room for the rounding.
\<close>

definition forestWind :: "nat \<Rightarrow> nat \<Rightarrow> real" where
  "forestWind bufferSize i = 0.7 + 0.3 * sin ((real i / real bufferSize) * pi * 4)"

definition forestSample :: "rng \<Rightarrow> nat \<Rightarrow> nat \<Rightarrow> pink channel_loop \<Rightarrow> pink channel_loop" where
  "forestSample rnd bufferSize i st =
     (let white = rnd (calls st) * 2 - 1;
          (p, out) = pinkStep white (filt st)
      in \<lparr>filt = p, calls = calls st + 1,
          data = (data st)[i := out * forestWind bufferSize i]\<rparr>)"

definition createForestBuffer :: "rng \<Rightarrow> nat \<Rightarrow> nat \<Rightarrow> nat \<Rightarrow> audio_buffer \<times> nat" where
  "createForestBuffer rnd c sampleRate duration =
     twoChannels (forestSample rnd (sampleRate * duration)) pinkZero c (sampleRate * duration)"

definition nightSample :: "rng \<Rightarrow> nat \<Rightarrow> nat \<Rightarrow> pink channel_loop \<Rightarrow> pink channel_loop" where
  "nightSample rnd sampleRate i st =
     (let white = rnd (calls st) * 2 - 1;
          (p, out) = pinkStep white (filt st);
          chirpEnv = (0.5 + 0.5 * sin ((real i / real sampleRate) * pi * 10)) ^ 20;
          chirp = (rnd (calls st + 1) * 2 - 1) * chirpEnv * 0.15
      in \<lparr>filt = p, calls = calls st + 2, data = (data st)[i := out * 0.4 + chirp]\<rparr>)"

definition createNightBuffer :: "rng \<Rightarrow> nat \<Rightarrow> nat \<Rightarrow> nat \<Rightarrow> audio_buffer \<times> nat" where
  "createNightBuffer rnd c sampleRate duration =
     twoChannels (nightSample rnd sampleRate) pinkZero c (sampleRate * duration)"

definition templeSample :: "rng \<Rightarrow> nat \<Rightarrow> nat \<Rightarrow> pink channel_loop \<Rightarrow> pink channel_loop" where
  "templeSample rnd sampleRate i st =
     (let white = rnd (calls st) * 2 - 1;
          (p, out) = pinkStep white (filt st);
          resonance = sin ((real i / real sampleRate) * pi * 2 * 380) * 0.015
      in \<lparr>filt = p, calls = calls st + 1, data = (data st)[i := out + resonance]\<rparr>)"

definition createTempleBuffer :: "rng \<Rightarrow> nat \<Rightarrow> nat \<Rightarrow> nat \<Rightarrow> audio_buffer \<times> nat" where
  "createTempleBuffer rnd c sampleRate duration =
     twoChannels (templeSample rnd sampleRate) pinkZero c (sampleRate * duration)"

section \<open>The host: Web Audio graph, timers and the page\<close>

text \<open>
  The browser objects the engine drives. A node is known by its handle (a number handed
  out at creation, so two handles are the same object exactly when they are equal);
  handle \<open>0\<close> is \<open>audioContext.destination\<close>. \<open>connect\<close> is idempotent and
  \<open>disconnect()\<close> removes every outgoing connection of a node, as in Web Audio.
  \<open>stop()\<close> on a source that was never started raises \<open>InvalidStateError\<close>.
\<close>

datatype error = TypeError | InvalidStateError

text \<open>
  The values the page passes as a frequency: a number (\<open>parseInt\<close> of the slider, a
  preset, the clamped sum of \<open>adjustFrequency\<close>), or the string \<open>slider.value\<close> of the
  range input, which spells an integer (the first call, from \<open>setupFrequencyControls\<close>).
  The engine stores the value as it comes; an audio parameter converts it to its number.
\<close>

datatype js_value = Number int | NumericString int

fun toNumber :: "js_value \<Rightarrow> int" where
  "toNumber (Number n) = n"
| "toNumber (NumericString n) = n"

datatype context_state = Suspended | Running | Closed

datatype node_kind = Destination | GainNode | AnalyserNode | Oscillator | BufferSource | NotchFilter

type_synonym node = nat

record host =
  sampleRate :: nat
  mathRandom :: rng
  randomCalls :: nat
  timeDomain :: "nat \<Rightarrow> 8 word"
  fftSize :: nat
  created :: nat
  nodeKind :: "node \<rightharpoonup> node_kind"
  edges :: "(node \<times> node) list"
  started :: "node list"
  stopped :: "node list"
  frequencyParam :: "node \<rightharpoonup> int"
  qParam :: "node \<rightharpoonup> real"
  gainParam :: "node \<rightharpoonup> real"
  sourceBuffer :: "node \<rightharpoonup> audio_buffer"
  intervals :: "nat list"
  timersSet :: nat
  timerText :: "int \<times> int"
  autoStopCalls :: nat

definition destination :: node where
  "destination = 0"

definition newHost :: "nat \<Rightarrow> rng \<Rightarrow> (nat \<Rightarrow> 8 word) \<Rightarrow> host" where
  "newHost sr rnd wave =
     \<lparr>sampleRate = sr, mathRandom = rnd, randomCalls = 0, timeDomain = wave, fftSize = 2048,
      created = 1, nodeKind = [destination \<mapsto> Destination], edges = [], started = [],
      stopped = [], frequencyParam = Map.empty, qParam = Map.empty, gainParam = Map.empty,
      sourceBuffer = Map.empty, intervals = [], timersSet = 0, timerText = (0, 0),
      autoStopCalls = 0\<rparr>"

definition createNode :: "node_kind \<Rightarrow> host \<Rightarrow> node \<times> host" where
  "createNode k h = (created h, h\<lparr>created := created h + 1, nodeKind := (nodeKind h)(created h \<mapsto> k)\<rparr>)"

definition connect :: "node \<Rightarrow> node \<Rightarrow> host \<Rightarrow> host" where
  "connect a b h = h\<lparr>edges := List.insert (a, b) (edges h)\<rparr>"

definition disconnect :: "node \<Rightarrow> host \<Rightarrow> host" where
  "disconnect a h = h\<lparr>edges := filter (\<lambda>e. fst e \<noteq> a) (edges h)\<rparr>"

definition startNode :: "node \<Rightarrow> host \<Rightarrow> host" where
  "startNode n h = h\<lparr>started := List.insert n (started h)\<rparr>"

definition stopNode :: "node \<Rightarrow> host \<Rightarrow> host" where
  "stopNode n h = h\<lparr>stopped := List.insert n (stopped h)\<rparr>"

definition setFrequencyParam :: "node \<Rightarrow> js_value \<Rightarrow> host \<Rightarrow> host" where
  "setFrequencyParam n v h = h\<lparr>frequencyParam := (frequencyParam h)(n \<mapsto> toNumber v)\<rparr>"

definition setQParam :: "node \<Rightarrow> real \<Rightarrow> host \<Rightarrow> host" where
  "setQParam n v h = h\<lparr>qParam := (qParam h)(n \<mapsto> v)\<rparr>"

definition setGainParam :: "node \<Rightarrow> real \<Rightarrow> host \<Rightarrow> host" where
  "setGainParam n v h = h\<lparr>gainParam := (gainParam h)(n \<mapsto> v)\<rparr>"

text \<open>
  \<open>setInterval\<close> hands out the ids \<open>1, 2, ...\<close> (never \<open>0\<close>, so an id is truthy);
  \<open>intervals\<close> are the ids still active.
\<close>

definition setInterval :: "host \<Rightarrow> nat \<times> host" where
  "setInterval h =
     (timersSet h + 1, h\<lparr>timersSet := timersSet h + 1, intervals := (timersSet h + 1) # intervals h\<rparr>)"

definition clearInterval :: "nat \<Rightarrow> host \<Rightarrow> host" where
  "clearInterval k h = h\<lparr>intervals := removeAll k (intervals h)\<rparr>"

section \<open>class TinnitusAudioEngine\<close>

text \<open>
  The fields of the class, \<open>null\<close> as \<open>None\<close>. \<open>audioContext\<close> holds the state of the
  context when there is one. \<open>onAutoStop\<close> is the property that \<open>initializeApp\<close> sets on
  the engine (whether a callback is registered); the calls made to it are counted by
  the host in \<open>autoStopCalls\<close>.
\<close>

record engine =
  audioContext :: "context_state option"
  masterGain :: "node option"
  analyser :: "node option"
  testOscillator :: "node option"
  testGain :: "node option"
  therapySource :: "node option"
  therapyGain :: "node option"
  notchFilter :: "node option"
  isTestTonePlaying :: bool
  isTherapyPlaying :: bool
  currentFrequency :: js_value
  currentVolume :: real
  currentSound :: string
  therapyStartTime :: "int option"
  therapyDuration :: int
  timerInterval :: "nat option"
  onAutoStop :: bool
  host :: host

text \<open>
  A method either returns or throws (an async method: its promise is rejected); in both
  cases \<open>final\<close> is the engine as the method left it.
\<close>

datatype outcome = Done (final: engine) | Raised (raised: error) (final: engine)

definition andThen :: "outcome \<Rightarrow> (engine \<Rightarrow> outcome) \<Rightarrow> outcome" where
  "andThen r f = (case r of Done s \<Rightarrow> f s | Raised e s \<Rightarrow> Raised e s)"

text \<open>
  \<open>param.setValueAtTime(v, this.audioContext.currentTime)\<close>: reading \<open>currentTime\<close> of
  a null context throws; otherwise the parameter takes the value at once.
\<close>

definition atCurrentTime :: "engine \<Rightarrow> (host \<Rightarrow> host) \<Rightarrow> outcome" where
  "atCurrentTime s upd =
     (case audioContext s of
        None \<Rightarrow> Raised TypeError s
      | Some c \<Rightarrow> Done (s\<lparr>host := upd (host s)\<rparr>))"

text \<open>
  \<open>initAudioContext\<close>: \<open>ctx\<close> is \<open>None\<close> when the browser has no \<open>AudioContext\<close> (the
  \<open>new\<close> throws and the \<open>catch\<close> leaves every field null), and the state the new
  context starts in otherwise.
\<close>

definition initAudioContext :: "context_state option \<Rightarrow> engine \<Rightarrow> engine" where
  "initAudioContext ctx s =
     (case ctx of
        None \<Rightarrow> s
      | Some c \<Rightarrow>
          (let (mg, h1) = createNode GainNode (host s);
               h2 = connect mg destination (setGainParam mg (currentVolume s) h1);
               (an, h3) = createNode AnalyserNode h2;
               h4 = connect an mg (h3\<lparr>fftSize := 2048\<rparr>)
           in s\<lparr>audioContext := Some c, masterGain := Some mg, analyser := Some an, host := h4\<rparr>))"

definition newEngine :: "context_state option \<Rightarrow> host \<Rightarrow> engine" where
  "newEngine ctx h =
     initAudioContext ctx
       \<lparr>audioContext = None, masterGain = None, analyser = None,
        testOscillator = None, testGain = None,
        therapySource = None, therapyGain = None, notchFilter = None,
        isTestTonePlaying = False, isTherapyPlaying = False,
        currentFrequency = Number 4000, currentVolume = 0.5, currentSound = ''whitenoise'',
        therapyStartTime = None, therapyDuration = 0, timerInterval = None,
        onAutoStop = False, host = h\<rparr>"

text \<open>
  \<open>resumeContext\<close>: reading \<open>state\<close> of a null context throws; \<open>resume()\<close> of a
  suspended context is taken to succeed.
\<close>

definition resumeContext :: "engine \<Rightarrow> outcome" where
  "resumeContext s =
     (case audioContext s of
        None \<Rightarrow> Raised TypeError s
      | Some c \<Rightarrow> if c = Suspended then Done (s\<lparr>audioContext := Some Running\<rparr>) else Done s)"

definition setFrequency :: "js_value \<Rightarrow> engine \<Rightarrow> outcome" where
  "setFrequency frequency s =
     andThen
       (let s1 = s\<lparr>currentFrequency := frequency\<rparr>
        in case testOscillator s1 of
             Some osc \<Rightarrow>
               if isTestTonePlaying s1 then atCurrentTime s1 (setFrequencyParam osc frequency)
               else Done s1
           | None \<Rightarrow> Done s1)
       (\<lambda>s2. case notchFilter s2 of
                Some f \<Rightarrow>
                  if isTherapyPlaying s2 then atCurrentTime s2 (setFrequencyParam f frequency)
                  else Done s2
              | None \<Rightarrow> Done s2)"

definition setVolume :: "real \<Rightarrow> engine \<Rightarrow> outcome" where
  "setVolume volume s =
     (let s1 = s\<lparr>currentVolume := volume\<rparr>
      in case masterGain s1 of
           Some mg \<Rightarrow> atCurrentTime s1 (setGainParam mg volume)
         | None \<Rightarrow> Done s1)"

text \<open>
  The \<open>if\<close> blocks of \<open>stopTestTone\<close> and \<open>stopTherapy\<close>, each releasing one handle
  that is not null.
\<close>

definition releaseTestOscillator :: "engine \<Rightarrow> outcome" where
  "releaseTestOscillator s =
     (case testOscillator s of
        Some osc \<Rightarrow>
          if osc \<in> set (started (host s))
          then Done (s\<lparr>testOscillator := None, host := disconnect osc (stopNode osc (host s))\<rparr>)
          else Raised InvalidStateError s
      | None \<Rightarrow> Done s)"

definition releaseTestGain :: "engine \<Rightarrow> engine" where
  "releaseTestGain s =
     (case testGain s of
        Some tg \<Rightarrow> s\<lparr>testGain := None, host := disconnect tg (host s)\<rparr>
      | None \<Rightarrow> s)"

definition stopTestTone :: "engine \<Rightarrow> outcome" where
  "stopTestTone s =
     andThen (releaseTestOscillator s)
       (\<lambda>s1. Done ((releaseTestGain s1)\<lparr>isTestTonePlaying := False\<rparr>))"

text \<open>\<open>playTestTone\<close> after its \<open>await this.resumeContext()\<close>.\<close>

definition playTestToneResumed :: "engine \<Rightarrow> outcome" where
  "playTestToneResumed s =
     (if isTestTonePlaying s then stopTestTone s
      else case audioContext s of
             None \<Rightarrow> Raised TypeError s
           | Some c \<Rightarrow>
               (let (osc, h1) = createNode Oscillator (host s);
                    h2 = setFrequencyParam osc (currentFrequency s) h1;
                    (tg, h3) = createNode GainNode h2;
                    h4 = connect osc tg (setGainParam tg 0.3 h3);
                    s1 = s\<lparr>testOscillator := Some osc, testGain := Some tg, host := h4\<rparr>
                in case masterGain s1 of
                     None \<Rightarrow> Raised TypeError s1
                   | Some mg \<Rightarrow>
                       Done (s1\<lparr>isTestTonePlaying := True,
                                host := startNode osc (connect tg mg (host s1))\<rparr>)))"

definition playTestTone :: "engine \<Rightarrow> outcome" where
  "playTestTone s = andThen (resumeContext s) playTestToneResumed"

text \<open>The \<open>switch\<close> of \<open>startTherapy\<close>: the buffer for a sound and the random draws made.\<close>

definition createBufferFor :: "string \<Rightarrow> rng \<Rightarrow> nat \<Rightarrow> nat \<Rightarrow> audio_buffer \<times> nat" where
  "createBufferFor soundType rnd c sr =
     (if soundType = ''whitenoise'' then createWhiteNoiseBuffer rnd c sr 2
      else if soundType = ''rain'' then createRainBuffer rnd c sr 4
      else if soundType = ''wave'' then createWaveBuffer rnd c sr 6
      else if soundType = ''forest'' then createForestBuffer rnd c sr 4
      else if soundType = ''night'' then createNightBuffer rnd c sr 3
      else if soundType = ''temple'' then createTempleBuffer rnd c sr 4
      else createWhiteNoiseBuffer rnd c sr 2)"

definition createNotchFilter :: "js_value \<Rightarrow> real \<Rightarrow> host \<Rightarrow> node \<times> host" where
  "createNotchFilter frequency q h =
     (let (f, h1) = createNode NotchFilter h
      in (f, setQParam f q (setFrequencyParam f frequency h1)))"

definition startTimer :: "int \<Rightarrow> engine \<Rightarrow> engine" where
  "startTimer now s =
     (let (k, h) = setInterval (host s)
      in s\<lparr>therapyStartTime := Some now, timerInterval := Some k, host := h\<rparr>)"

definition stopTimer :: "engine \<Rightarrow> engine" where
  "stopTimer s =
     (case timerInterval s of
        Some k \<Rightarrow> s\<lparr>timerInterval := None, host := clearInterval k (host s)\<rparr>
      | None \<Rightarrow> s)"

text \<open>JavaScript's \<open>%\<close>: the remainder has the sign of the dividend.\<close>

definition jsRemainder :: "int \<Rightarrow> int \<Rightarrow> int" where
  "jsRemainder a b = sgn a * (\<bar>a\<bar> mod \<bar>b\<bar>)"

text \<open>The text of the \<open>.timer-time\<close> element, as its minutes and seconds.\<close>

definition updateTimerDisplay :: "engine \<Rightarrow> engine" where
  "updateTimerDisplay s =
     s\<lparr>host := (host s)\<lparr>timerText := (therapyDuration s div 60, jsRemainder (therapyDuration s) 60)\<rparr>\<rparr>"

text \<open>
  The callback given to \<open>setInterval\<close> in \<open>startTimer\<close>, run by the host for the interval
  \<open>k\<close> at the time \<open>now\<close> (milliseconds); a cleared interval does not run.
\<close>

definition timerTick :: "nat \<Rightarrow> int \<Rightarrow> engine \<Rightarrow> engine" where
  "timerTick k now s =
     (if k \<in> set (intervals (host s))
      then updateTimerDisplay
             (s\<lparr>therapyDuration :=
                  (now - (case therapyStartTime s of Some t \<Rightarrow> t | None \<Rightarrow> 0)) div 1000\<rparr>)
      else s)"

definition releaseTherapySource :: "engine \<Rightarrow> outcome" where
  "releaseTherapySource s =
     (case therapySource s of
        Some src \<Rightarrow>
          if src \<in> set (started (host s))
          then Done (s\<lparr>therapySource := None, host := disconnect src (stopNode src (host s))\<rparr>)
          else Raised InvalidStateError s
      | None \<Rightarrow> Done s)"

definition releaseNotchFilter :: "engine \<Rightarrow> engine" where
  "releaseNotchFilter s =
     (case notchFilter s of
        Some f \<Rightarrow> s\<lparr>notchFilter := None, host := disconnect f (host s)\<rparr>
      | None \<Rightarrow> s)"

definition releaseTherapyGain :: "engine \<Rightarrow> engine" where
  "releaseTherapyGain s =
     (case therapyGain s of
        Some g \<Rightarrow> s\<lparr>therapyGain := None, host := disconnect g (host s)\<rparr>
      | None \<Rightarrow> s)"

definition stopTherapy :: "engine \<Rightarrow> outcome" where
  "stopTherapy s =
     andThen (releaseTherapySource s)
       (\<lambda>s1. Done (stopTimer ((releaseTherapyGain (releaseNotchFilter s1))\<lparr>isTherapyPlaying := False\<rparr>)))"

text \<open>
  \<open>if (isSwitching && this.therapySource) { try { stop(); disconnect(); } catch (e) { } }\<close>:
  the handle stays in the field, a \<open>stop()\<close> that throws skips the \<open>disconnect()\<close>.
\<close>

definition releaseForSwitch :: "engine \<Rightarrow> engine" where
  "releaseForSwitch s =
     (case therapySource s of
        Some src \<Rightarrow>
          if src \<in> set (started (host s))
          then s\<lparr>host := disconnect src (stopNode src (host s))\<rparr>
          else s
      | None \<Rightarrow> s)"

definition ensureNotchFilter :: "engine \<Rightarrow> node \<times> engine" where
  "ensureNotchFilter s =
     (case notchFilter s of
        Some f \<Rightarrow> (f, s)
      | None \<Rightarrow>
          (let (f, h) = createNotchFilter (currentFrequency s) 30 (host s)
           in (f, s\<lparr>notchFilter := Some f, host := h\<rparr>)))"

definition ensureTherapyGain :: "engine \<Rightarrow> node \<times> engine" where
  "ensureTherapyGain s =
     (case therapyGain s of
        Some g \<Rightarrow> (g, s)
      | None \<Rightarrow>
          (let (g, h) = createNode GainNode (host s)
           in (g, s\<lparr>therapyGain := Some g, host := setGainParam g 0.7 h\<rparr>)))"

text \<open>
  The blocks of \<open>startTherapy\<close>: the buffer and its source node; the graph and the
  start of the playback. A node has no property \<open>connected\<close>, so
  \<open>!this.notchFilter.connected\<close> is true and both \<open>connect\<close> calls are made on every
  start. \<open>connect(null)\<close> throws.
\<close>

definition createSource :: "string \<Rightarrow> engine \<Rightarrow> node \<times> engine" where
  "createSource soundType s =
     (let (buffer, n) = createBufferFor soundType (mathRandom (host s))
                          (randomCalls (host s)) (sampleRate (host s));
          (src, h) = createNode BufferSource ((host s)\<lparr>randomCalls := n\<rparr>)
      in (src, s\<lparr>therapySource := Some src,
                  host := h\<lparr>sourceBuffer := (sourceBuffer h)(src \<mapsto> buffer)\<rparr>\<rparr>))"

definition connectGraph :: "node \<Rightarrow> node \<Rightarrow> node \<Rightarrow> engine \<Rightarrow> outcome" where
  "connectGraph src f g s =
     (let s1 = s\<lparr>host := connect f g (connect src f (host s))\<rparr>
      in case analyser s1 of
           None \<Rightarrow> Raised TypeError s1
         | Some an \<Rightarrow>
             Done (s1\<lparr>isTherapyPlaying := True,
                      host := startNode src (connect g an (host s1))\<rparr>))"

text \<open>\<open>startTherapy\<close> after its \<open>await this.resumeContext()\<close>.\<close>

definition startTherapyResumed :: "string \<Rightarrow> bool \<Rightarrow> int \<Rightarrow> engine \<Rightarrow> outcome" where
  "startTherapyResumed soundType isSwitching now s =
     (if isTherapyPlaying s \<and> \<not> isSwitching then stopTherapy s
      else
        (let s1 = (if isSwitching then releaseForSwitch s else s);
             s2 = s1\<lparr>currentSound := soundType\<rparr>
         in case audioContext s2 of
              None \<Rightarrow> Raised TypeError s2
            | Some c \<Rightarrow>
                (let (src, s3) = createSource soundType s2;
                     (f, s4) = ensureNotchFilter s3;
                     (g, s5) = ensureTherapyGain s4
                 in andThen (connectGraph src f g s5)
                      (\<lambda>s6. Done (if isSwitching then s6 else startTimer now s6)))))"

definition startTherapy :: "string \<Rightarrow> bool \<Rightarrow> int \<Rightarrow> engine \<Rightarrow> outcome" where
  "startTherapy soundType isSwitching now s =
     andThen (resumeContext s) (startTherapyResumed soundType isSwitching now)"

text \<open>
  \<open>getAnalyserData\<close>: \<open>null\<close>, or \<open>bufferLength\<close> and the \<open>Uint8Array\<close> that
  \<open>getByteTimeDomainData\<close> filled; the engine is returned as the call left it.
\<close>

definition getAnalyserData :: "engine \<Rightarrow> (nat \<times> 8 word list) option \<times> engine" where
  "getAnalyserData s =
     (case analyser s of
        None \<Rightarrow> (None, s)
      | Some an \<Rightarrow>
          (let bufferLength = fftSize (host s) div 2;
               dataArray = map (timeDomain (host s)) [0..<bufferLength]
           in (Some (bufferLength, dataArray), s)))"

definition destroy :: "engine \<Rightarrow> outcome" where
  "destroy s =
     andThen (stopTestTone s)
       (\<lambda>s1. andThen (stopTherapy s1)
          (\<lambda>s2. case audioContext s2 of
                   Some c \<Rightarrow> Done (s2\<lparr>audioContext := Some Closed\<rparr>)
                 | None \<Rightarrow> Done s2))"

subsection \<open>The callers in the page script\<close>

text \<open>
  \<open>selectSound\<close> (without its work on the page): the field is written first, and a
  playing therapy is switched. \<open>initializeApp\<close> registers the auto-stop callback.
\<close>

definition selectSound :: "string \<Rightarrow> int \<Rightarrow> engine \<Rightarrow> outcome" where
  "selectSound soundType now s =
     (let s1 = s\<lparr>currentSound := soundType\<rparr>
      in if isTherapyPlaying s1 then startTherapy soundType True now s1 else Done s1)"

definition registerAutoStop :: "engine \<Rightarrow> engine" where
  "registerAutoStop s = s\<lparr>onAutoStop := True\<rparr>"

subsection \<open>Sessions\<close>

text \<open>
  Every entry point of the engine and of the page script, with its arguments and, where
  the code reads the clock, the value of \<open>Date.now()\<close>. An async method is also split
  at its \<open>await\<close>, since other events may run there.
\<close>

datatype call =
    SetFrequency js_value
  | SetVolume real
  | ResumeContext
  | PlayTestTone
  | PlayTestToneResumed
  | StopTestTone
  | StartTherapy string bool int
  | StartTherapyResumed string bool int
  | StopTherapy
  | StartTimer int
  | StopTimer
  | UpdateTimerDisplay
  | TimerTick nat int
  | GetAnalyserData
  | Destroy
  | SelectSound string int
  | RegisterAutoStop

fun perform :: "call \<Rightarrow> engine \<Rightarrow> outcome" where
  "perform (SetFrequency f) s = setFrequency f s"
| "perform (SetVolume v) s = setVolume v s"
| "perform ResumeContext s = resumeContext s"
| "perform PlayTestTone s = playTestTone s"
| "perform PlayTestToneResumed s = playTestToneResumed s"
| "perform StopTestTone s = stopTestTone s"
| "perform (StartTherapy t sw now) s = startTherapy t sw now s"
| "perform (StartTherapyResumed t sw now) s = startTherapyResumed t sw now s"
| "perform StopTherapy s = stopTherapy s"
| "perform (StartTimer now) s = Done (startTimer now s)"
| "perform StopTimer s = Done (stopTimer s)"
| "perform UpdateTimerDisplay s = Done (updateTimerDisplay s)"
| "perform (TimerTick k now) s = Done (timerTick k now s)"
| "perform GetAnalyserData s = Done (snd (getAnalyserData s))"
| "perform Destroy s = destroy s"
| "perform (SelectSound t now) s = selectSound t now s"
| "perform RegisterAutoStop s = Done (registerAutoStop s)"

text \<open>The engines a page can hold: a new one, and any engine after one more call.\<close>

inductive reachable :: "engine \<Rightarrow> bool" where
  fresh: "reachable (newEngine ctx (newHost sr rnd wave))"
| step: "reachable s \<Longrightarrow> reachable (final (perform c s))"

text \<open>
  The invariant of the processing graph, as the specification words it: a playing
  therapy has its three handles and the chain source, filter, gain, analyser; an idle
  one has none of the handles, and nothing is connected to the analyser.
\<close>

definition graphInvariant :: "engine \<Rightarrow> bool" where
  "graphInvariant s =
     (if isTherapyPlaying s
      then (case (therapySource s, notchFilter s, therapyGain s, analyser s) of
              (Some src, Some f, Some g, Some an) \<Rightarrow>
                (src, f) \<in> set (edges (host s)) \<and> (f, g) \<in> set (edges (host s)) \<and>
                (g, an) \<in> set (edges (host s))
            | _ \<Rightarrow> False)
      else therapySource s = None \<and> notchFilter s = None \<and> therapyGain s = None \<and>
           (case analyser s of
              Some an \<Rightarrow> list_all (\<lambda>e. snd e \<noteq> an) (edges (host s))
            | None \<Rightarrow> True))"

text \<open>A wave form of silence and the interval firing once a second, to run sessions on.\<close>

definition silence :: "nat \<Rightarrow> 8 word" where
  "silence n = 128"

definition everySecond :: "nat \<Rightarrow> int \<Rightarrow> nat \<Rightarrow> engine \<Rightarrow> engine" where
  "everySecond k t0 n s = forLoop (\<lambda>j. timerTick k (t0 + 1000 * (int j + 1))) n s"

text \<open>
  A page at work: an engine on a running context with the auto-stop callback registered,
  and the same engine after \<open>startTherapy('rain')\<close> at time \<open>0\<close>.
\<close>

definition demoEngine :: engine where
  "demoEngine = registerAutoStop (newEngine (Some Running) (newHost 44100 steadyRandom silence))"

definition rainSession :: engine where
  "rainSession = final (startTherapy ''rain'' False 0 demoEngine)"


text \<open>
  What every reachable engine satisfies besides: the handles the engine holds, their
  freshness (a handle is below the number of nodes created, test tone, therapy and
  analyser handles are different objects), sources held are started, a context comes
  with its master gain and analyser, and only the therapy gain feeds the analyser.
\<close>

definition testNodes :: "engine \<Rightarrow> node set" where
  "testNodes s = set_option (testOscillator s) \<union> set_option (testGain s)"

definition therapyNodes :: "engine \<Rightarrow> node set" where
  "therapyNodes s =
     set_option (therapySource s) \<union> set_option (notchFilter s) \<union> set_option (therapyGain s)"

definition sinkNodes :: "engine \<Rightarrow> node set" where
  "sinkNodes s = set_option (masterGain s) \<union> set_option (analyser s)"

definition linked :: "node option \<Rightarrow> node option \<Rightarrow> (node \<times> node) list \<Rightarrow> bool" where
  "linked a b es = (case a of
                      Some x \<Rightarrow> (case b of Some y \<Rightarrow> (x, y) \<in> set es | None \<Rightarrow> False)
                    | None \<Rightarrow> False)"

definition coherent :: "engine \<Rightarrow> bool" where
  "coherent s =
     ((audioContext s = None \<longrightarrow> sinkNodes s \<union> testNodes s \<union> therapyNodes s = {}) \<and>
      (audioContext s \<noteq> None \<longrightarrow> masterGain s \<noteq> None \<and> analyser s \<noteq> None) \<and>
      set_option (testOscillator s) \<subseteq> set (started (host s)) \<and>
      (\<forall>n \<in> sinkNodes s \<union> testNodes s \<union> therapyNodes s. n < created (host s)) \<and>
      testNodes s \<inter> therapyNodes s = {} \<and>
      set_option (analyser s) \<inter> (set_option (masterGain s) \<union> testNodes s \<union> therapyNodes s) = {} \<and>
      (\<forall>x y. (x, y) \<in> set (edges (host s)) \<longrightarrow> Some y = analyser s \<longrightarrow> Some x = therapyGain s))"

definition wellFormed :: "engine \<Rightarrow> bool" where
  "wellFormed s =
     (coherent s \<and>
      set_option (therapySource s) \<subseteq> set (started (host s)) \<and>
      (if isTherapyPlaying s
       then linked (therapySource s) (notchFilter s) (edges (host s)) \<and>
            linked (notchFilter s) (therapyGain s) (edges (host s)) \<and>
            linked (therapyGain s) (analyser s) (edges (host s))
       else therapyNodes s = {}))"

section \<open>The blocks of the engine, one at a time\<close>

lemmas host_ops = createNode_def connect_def disconnect_def startNode_def stopNode_def
  setFrequencyParam_def setQParam_def setGainParam_def setInterval_def clearInterval_def

lemmas node_sets = testNodes_def therapyNodes_def sinkNodes_def

lemma linked_simps [simp]:
  "linked (Some x) (Some y) es = ((x, y) \<in> set es)"
  "linked None b es = False"
  "linked a None es = False"
  by (auto simp: linked_def split: option.splits)

lemma final_andThen:
  "final (andThen r f) = (case r of Done s \<Rightarrow> final (f s) | Raised e s \<Rightarrow> s)"
  by (simp add: andThen_def split: outcome.splits)

subsection \<open>What each block leaves alone\<close>

lemma releaseForSwitch_frame:
  shows "audioContext (releaseForSwitch s) = audioContext s"
    and "masterGain (releaseForSwitch s) = masterGain s"
    and "analyser (releaseForSwitch s) = analyser s"
    and "testOscillator (releaseForSwitch s) = testOscillator s"
    and "testGain (releaseForSwitch s) = testGain s"
    and "therapySource (releaseForSwitch s) = therapySource s"
    and "therapyGain (releaseForSwitch s) = therapyGain s"
    and "notchFilter (releaseForSwitch s) = notchFilter s"
    and "isTestTonePlaying (releaseForSwitch s) = isTestTonePlaying s"
    and "isTherapyPlaying (releaseForSwitch s) = isTherapyPlaying s"
    and "currentFrequency (releaseForSwitch s) = currentFrequency s"
    and "currentVolume (releaseForSwitch s) = currentVolume s"
    and "currentSound (releaseForSwitch s) = currentSound s"
    and "therapyStartTime (releaseForSwitch s) = therapyStartTime s"
    and "therapyDuration (releaseForSwitch s) = therapyDuration s"
    and "timerInterval (releaseForSwitch s) = timerInterval s"
    and "onAutoStop (releaseForSwitch s) = onAutoStop s"
    and "sampleRate (host (releaseForSwitch s)) = sampleRate (host s)"
    and "mathRandom (host (releaseForSwitch s)) = mathRandom (host s)"
    and "randomCalls (host (releaseForSwitch s)) = randomCalls (host s)"
    and "timeDomain (host (releaseForSwitch s)) = timeDomain (host s)"
    and "fftSize (host (releaseForSwitch s)) = fftSize (host s)"
    and "created (host (releaseForSwitch s)) = created (host s)"
    and "nodeKind (host (releaseForSwitch s)) = nodeKind (host s)"
    and "started (host (releaseForSwitch s)) = started (host s)"
    and "frequencyParam (host (releaseForSwitch s)) = frequencyParam (host s)"
    and "qParam (host (releaseForSwitch s)) = qParam (host s)"
    and "gainParam (host (releaseForSwitch s)) = gainParam (host s)"
    and "sourceBuffer (host (releaseForSwitch s)) = sourceBuffer (host s)"
    and "intervals (host (releaseForSwitch s)) = intervals (host s)"
    and "timersSet (host (releaseForSwitch s)) = timersSet (host s)"
    and "timerText (host (releaseForSwitch s)) = timerText (host s)"
    and "autoStopCalls (host (releaseForSwitch s)) = autoStopCalls (host s)"
  by (simp_all add: releaseForSwitch_def host_ops split: option.splits)

lemma createSource_frame:
  assumes "createSource ty s = (src, t)"
  shows "audioContext t = audioContext s"
    and "masterGain t = masterGain s"
    and "analyser t = analyser s"
    and "testOscillator t = testOscillator s"
    and "testGain t = testGain s"
    and "therapyGain t = therapyGain s"
    and "notchFilter t = notchFilter s"
    and "isTestTonePlaying t = isTestTonePlaying s"
    and "isTherapyPlaying t = isTherapyPlaying s"
    and "currentFrequency t = currentFrequency s"
    and "currentVolume t = currentVolume s"
    and "currentSound t = currentSound s"
    and "therapyStartTime t = therapyStartTime s"
    and "therapyDuration t = therapyDuration s"
    and "timerInterval t = timerInterval s"
    and "onAutoStop t = onAutoStop s"
    and "sampleRate (host t) = sampleRate (host s)"
    and "mathRandom (host t) = mathRandom (host s)"
    and "timeDomain (host t) = timeDomain (host s)"
    and "fftSize (host t) = fftSize (host s)"
    and "edges (host t) = edges (host s)"
    and "started (host t) = started (host s)"
    and "stopped (host t) = stopped (host s)"
    and "frequencyParam (host t) = frequencyParam (host s)"
    and "qParam (host t) = qParam (host s)"
    and "gainParam (host t) = gainParam (host s)"
    and "intervals (host t) = intervals (host s)"
    and "timersSet (host t) = timersSet (host s)"
    and "timerText (host t) = timerText (host s)"
    and "autoStopCalls (host t) = autoStopCalls (host s)"
  using assms by (auto simp: createSource_def host_ops Let_def split: prod.splits)

lemma ensureNotchFilter_frame:
  assumes "ensureNotchFilter s = (f, t)"
  shows "audioContext t = audioContext s"
    and "masterGain t = masterGain s"
    and "analyser t = analyser s"
    and "testOscillator t = testOscillator s"
    and "testGain t = testGain s"
    and "therapySource t = therapySource s"
    and "therapyGain t = therapyGain s"
    and "isTestTonePlaying t = isTestTonePlaying s"
    and "isTherapyPlaying t = isTherapyPlaying s"
    and "currentFrequency t = currentFrequency s"
    and "currentVolume t = currentVolume s"
    and "currentSound t = currentSound s"
    and "therapyStartTime t = therapyStartTime s"
    and "therapyDuration t = therapyDuration s"
    and "timerInterval t = timerInterval s"
    and "onAutoStop t = onAutoStop s"
    and "sampleRate (host t) = sampleRate (host s)"
    and "mathRandom (host t) = mathRandom (host s)"
    and "randomCalls (host t) = randomCalls (host s)"
    and "timeDomain (host t) = timeDomain (host s)"
    and "fftSize (host t) = fftSize (host s)"
    and "edges (host t) = edges (host s)"
    and "started (host t) = started (host s)"
    and "stopped (host t) = stopped (host s)"
    and "gainParam (host t) = gainParam (host s)"
    and "sourceBuffer (host t) = sourceBuffer (host s)"
    and "intervals (host t) = intervals (host s)"
    and "timersSet (host t) = timersSet (host s)"
    and "timerText (host t) = timerText (host s)"
    and "autoStopCalls (host t) = autoStopCalls (host s)"
  using assms
  by (cases "notchFilter s";
      auto simp: ensureNotchFilter_def createNotchFilter_def host_ops Let_def split: prod.splits)+

lemma ensureTherapyGain_frame:
  assumes "ensureTherapyGain s = (g, t)"
  shows "audioContext t = audioContext s"
    and "masterGain t = masterGain s"
    and "analyser t = analyser s"
    and "testOscillator t = testOscillator s"
    and "testGain t = testGain s"
    and "therapySource t = therapySource s"
    and "notchFilter t = notchFilter s"
    and "isTestTonePlaying t = isTestTonePlaying s"
    and "isTherapyPlaying t = isTherapyPlaying s"
    and "currentFrequency t = currentFrequency s"
    and "currentVolume t = currentVolume s"
    and "currentSound t = currentSound s"
    and "therapyStartTime t = therapyStartTime s"
    and "therapyDuration t = therapyDuration s"
    and "timerInterval t = timerInterval s"
    and "onAutoStop t = onAutoStop s"
    and "sampleRate (host t) = sampleRate (host s)"
    and "mathRandom (host t) = mathRandom (host s)"
    and "randomCalls (host t) = randomCalls (host s)"
    and "timeDomain (host t) = timeDomain (host s)"
    and "fftSize (host t) = fftSize (host s)"
    and "edges (host t) = edges (host s)"
    and "started (host t) = started (host s)"
    and "stopped (host t) = stopped (host s)"
    and "frequencyParam (host t) = frequencyParam (host s)"
    and "qParam (host t) = qParam (host s)"
    and "sourceBuffer (host t) = sourceBuffer (host s)"
    and "intervals (host t) = intervals (host s)"
    and "timersSet (host t) = timersSet (host s)"
    and "timerText (host t) = timerText (host s)"
    and "autoStopCalls (host t) = autoStopCalls (host s)"
  using assms
  by (cases "therapyGain s";
      auto simp: ensureTherapyGain_def host_ops Let_def split: prod.splits)+

lemma connectGraph_frame:
  assumes "analyser s = Some an"
  shows "audioContext (final (connectGraph src f g s)) = audioContext s"
    and "masterGain (final (connectGraph src f g s)) = masterGain s"
    and "analyser (final (connectGraph src f g s)) = analyser s"
    and "testOscillator (final (connectGraph src f g s)) = testOscillator s"
    and "testGain (final (connectGraph src f g s)) = testGain s"
    and "therapySource (final (connectGraph src f g s)) = therapySource s"
    and "therapyGain (final (connectGraph src f g s)) = therapyGain s"
    and "notchFilter (final (connectGraph src f g s)) = notchFilter s"
    and "isTestTonePlaying (final (connectGraph src f g s)) = isTestTonePlaying s"
    and "currentFrequency (final (connectGraph src f g s)) = currentFrequency s"
    and "currentVolume (final (connectGraph src f g s)) = currentVolume s"
    and "currentSound (final (connectGraph src f g s)) = currentSound s"
    and "therapyStartTime (final (connectGraph src f g s)) = therapyStartTime s"
    and "therapyDuration (final (connectGraph src f g s)) = therapyDuration s"
    and "timerInterval (final (connectGraph src f g s)) = timerInterval s"
    and "onAutoStop (final (connectGraph src f g s)) = onAutoStop s"
    and "sampleRate (host (final (connectGraph src f g s))) = sampleRate (host s)"
    and "mathRandom (host (final (connectGraph src f g s))) = mathRandom (host s)"
    and "randomCalls (host (final (connectGraph src f g s))) = randomCalls (host s)"
    and "timeDomain (host (final (connectGraph src f g s))) = timeDomain (host s)"
    and "fftSize (host (final (connectGraph src f g s))) = fftSize (host s)"
    and "created (host (final (connectGraph src f g s))) = created (host s)"
    and "nodeKind (host (final (connectGraph src f g s))) = nodeKind (host s)"
    and "stopped (host (final (connectGraph src f g s))) = stopped (host s)"
    and "frequencyParam (host (final (connectGraph src f g s))) = frequencyParam (host s)"
    and "qParam (host (final (connectGraph src f g s))) = qParam (host s)"
    and "gainParam (host (final (connectGraph src f g s))) = gainParam (host s)"
    and "sourceBuffer (host (final (connectGraph src f g s))) = sourceBuffer (host s)"
    and "intervals (host (final (connectGraph src f g s))) = intervals (host s)"
    and "timersSet (host (final (connectGraph src f g s))) = timersSet (host s)"
    and "timerText (host (final (connectGraph src f g s))) = timerText (host s)"
    and "autoStopCalls (host (final (connectGraph src f g s))) = autoStopCalls (host s)"
  using assms by (simp_all add: connectGraph_def host_ops Let_def)

lemma startTimer_frame:
  shows "audioContext (startTimer now s) = audioContext s"
    and "masterGain (startTimer now s) = masterGain s"
    and "analyser (startTimer now s) = analyser s"
    and "testOscillator (startTimer now s) = testOscillator s"
    and "testGain (startTimer now s) = testGain s"
    and "therapySource (startTimer now s) = therapySource s"
    and "therapyGain (startTimer now s) = therapyGain s"
    and "notchFilter (startTimer now s) = notchFilter s"
    and "isTestTonePlaying (startTimer now s) = isTestTonePlaying s"
    and "isTherapyPlaying (startTimer now s) = isTherapyPlaying s"
    and "currentFrequency (startTimer now s) = currentFrequency s"
    and "currentVolume (startTimer now s) = currentVolume s"
    and "currentSound (startTimer now s) = currentSound s"
    and "therapyDuration (startTimer now s) = therapyDuration s"
    and "onAutoStop (startTimer now s) = onAutoStop s"
    and "sampleRate (host (startTimer now s)) = sampleRate (host s)"
    and "mathRandom (host (startTimer now s)) = mathRandom (host s)"
    and "randomCalls (host (startTimer now s)) = randomCalls (host s)"
    and "timeDomain (host (startTimer now s)) = timeDomain (host s)"
    and "fftSize (host (startTimer now s)) = fftSize (host s)"
    and "created (host (startTimer now s)) = created (host s)"
    and "nodeKind (host (startTimer now s)) = nodeKind (host s)"
    and "edges (host (startTimer now s)) = edges (host s)"
    and "started (host (startTimer now s)) = started (host s)"
    and "stopped (host (startTimer now s)) = stopped (host s)"
    and "frequencyParam (host (startTimer now s)) = frequencyParam (host s)"
    and "qParam (host (startTimer now s)) = qParam (host s)"
    and "gainParam (host (startTimer now s)) = gainParam (host s)"
    and "sourceBuffer (host (startTimer now s)) = sourceBuffer (host s)"
    and "timerText (host (startTimer now s)) = timerText (host s)"
    and "autoStopCalls (host (startTimer now s)) = autoStopCalls (host s)"
  by (simp_all add: startTimer_def host_ops)

lemma stopTimer_frame:
  shows "audioContext (stopTimer s) = audioContext s"
    and "masterGain (stopTimer s) = masterGain s"
    and "analyser (stopTimer s) = analyser s"
    and "testOscillator (stopTimer s) = testOscillator s"
    and "testGain (stopTimer s) = testGain s"
    and "therapySource (stopTimer s) = therapySource s"
    and "therapyGain (stopTimer s) = therapyGain s"
    and "notchFilter (stopTimer s) = notchFilter s"
    and "isTestTonePlaying (stopTimer s) = isTestTonePlaying s"
    and "isTherapyPlaying (stopTimer s) = isTherapyPlaying s"
    and "currentFrequency (stopTimer s) = currentFrequency s"
    and "currentVolume (stopTimer s) = currentVolume s"
    and "currentSound (stopTimer s) = currentSound s"
    and "therapyStartTime (stopTimer s) = therapyStartTime s"
    and "therapyDuration (stopTimer s) = therapyDuration s"
    and "onAutoStop (stopTimer s) = onAutoStop s"
    and "sampleRate (host (stopTimer s)) = sampleRate (host s)"
    and "mathRandom (host (stopTimer s)) = mathRandom (host s)"
    and "randomCalls (host (stopTimer s)) = randomCalls (host s)"
    and "timeDomain (host (stopTimer s)) = timeDomain (host s)"
    and "fftSize (host (stopTimer s)) = fftSize (host s)"
    and "created (host (stopTimer s)) = created (host s)"
    and "nodeKind (host (stopTimer s)) = nodeKind (host s)"
    and "edges (host (stopTimer s)) = edges (host s)"
    and "started (host (stopTimer s)) = started (host s)"
    and "stopped (host (stopTimer s)) = stopped (host s)"
    and "frequencyParam (host (stopTimer s)) = frequencyParam (host s)"
    and "qParam (host (stopTimer s)) = qParam (host s)"
    and "gainParam (host (stopTimer s)) = gainParam (host s)"
    and "sourceBuffer (host (stopTimer s)) = sourceBuffer (host s)"
    and "timersSet (host (stopTimer s)) = timersSet (host s)"
    and "timerText (host (stopTimer s)) = timerText (host s)"
    and "autoStopCalls (host (stopTimer s)) = autoStopCalls (host s)"
  by (cases "timerInterval s"; simp add: stopTimer_def host_ops)+

lemma releaseTherapySource_frame:
  assumes "releaseTherapySource s = Done t"
  shows "audioContext t = audioContext s"
    and "masterGain t = masterGain s"
    and "analyser t = analyser s"
    and "testOscillator t = testOscillator s"
    and "testGain t = testGain s"
    and "therapyGain t = therapyGain s"
    and "notchFilter t = notchFilter s"
    and "isTestTonePlaying t = isTestTonePlaying s"
    and "isTherapyPlaying t = isTherapyPlaying s"
    and "currentFrequency t = currentFrequency s"
    and "currentVolume t = currentVolume s"
    and "currentSound t = currentSound s"
    and "therapyStartTime t = therapyStartTime s"
    and "therapyDuration t = therapyDuration s"
    and "timerInterval t = timerInterval s"
    and "onAutoStop t = onAutoStop s"
    and "sampleRate (host t) = sampleRate (host s)"
    and "mathRandom (host t) = mathRandom (host s)"
    and "randomCalls (host t) = randomCalls (host s)"
    and "timeDomain (host t) = timeDomain (host s)"
    and "fftSize (host t) = fftSize (host s)"
    and "created (host t) = created (host s)"
    and "nodeKind (host t) = nodeKind (host s)"
    and "started (host t) = started (host s)"
    and "frequencyParam (host t) = frequencyParam (host s)"
    and "qParam (host t) = qParam (host s)"
    and "gainParam (host t) = gainParam (host s)"
    and "sourceBuffer (host t) = sourceBuffer (host s)"
    and "intervals (host t) = intervals (host s)"
    and "timersSet (host t) = timersSet (host s)"
    and "timerText (host t) = timerText (host s)"
    and "autoStopCalls (host t) = autoStopCalls (host s)"
  using assms
  by (cases "therapySource s";
      auto simp: releaseTherapySource_def host_ops split: if_splits)+

lemma releaseNotchFilter_frame:
  shows "audioContext (releaseNotchFilter s) = audioContext s"
    and "masterGain (releaseNotchFilter s) = masterGain s"
    and "analyser (releaseNotchFilter s) = analyser s"
    and "testOscillator (releaseNotchFilter s) = testOscillator s"
    and "testGain (releaseNotchFilter s) = testGain s"
    and "therapySource (releaseNotchFilter s) = therapySource s"
    and "therapyGain (releaseNotchFilter s) = therapyGain s"
    and "isTestTonePlaying (releaseNotchFilter s) = isTestTonePlaying s"
    and "isTherapyPlaying (releaseNotchFilter s) = isTherapyPlaying s"
    and "currentFrequency (releaseNotchFilter s) = currentFrequency s"
    and "currentVolume (releaseNotchFilter s) = currentVolume s"
    and "currentSound (releaseNotchFilter s) = currentSound s"
    and "therapyStartTime (releaseNotchFilter s) = therapyStartTime s"
    and "therapyDuration (releaseNotchFilter s) = therapyDuration s"
    and "timerInterval (releaseNotchFilter s) = timerInterval s"
    and "onAutoStop (releaseNotchFilter s) = onAutoStop s"
    and "sampleRate (host (releaseNotchFilter s)) = sampleRate (host s)"
    and "mathRandom (host (releaseNotchFilter s)) = mathRandom (host s)"
    and "randomCalls (host (releaseNotchFilter s)) = randomCalls (host s)"
    and "timeDomain (host (releaseNotchFilter s)) = timeDomain (host s)"
    and "fftSize (host (releaseNotchFilter s)) = fftSize (host s)"
    and "created (host (releaseNotchFilter s)) = created (host s)"
    and "nodeKind (host (releaseNotchFilter s)) = nodeKind (host s)"
    and "started (host (releaseNotchFilter s)) = started (host s)"
    and "stopped (host (releaseNotchFilter s)) = stopped (host s)"
    and "frequencyParam (host (releaseNotchFilter s)) = frequencyParam (host s)"
    and "qParam (host (releaseNotchFilter s)) = qParam (host s)"
    and "gainParam (host (releaseNotchFilter s)) = gainParam (host s)"
    and "sourceBuffer (host (releaseNotchFilter s)) = sourceBuffer (host s)"
    and "intervals (host (releaseNotchFilter s)) = intervals (host s)"
    and "timersSet (host (releaseNotchFilter s)) = timersSet (host s)"
    and "timerText (host (releaseNotchFilter s)) = timerText (host s)"
    and "autoStopCalls (host (releaseNotchFilter s)) = autoStopCalls (host s)"
  by (cases "notchFilter s"; simp add: releaseNotchFilter_def host_ops)+

lemma releaseTherapyGain_frame:
  shows "audioContext (releaseTherapyGain s) = audioContext s"
    and "masterGain (releaseTherapyGain s) = masterGain s"
    and "analyser (releaseTherapyGain s) = analyser s"
    and "testOscillator (releaseTherapyGain s) = testOscillator s"
    and "testGain (releaseTherapyGain s) = testGain s"
    and "therapySource (releaseTherapyGain s) = therapySource s"
    and "notchFilter (releaseTherapyGain s) = notchFilter s"
    and "isTestTonePlaying (releaseTherapyGain s) = isTestTonePlaying s"
    and "isTherapyPlaying (releaseTherapyGain s) = isTherapyPlaying s"
    and "currentFrequency (releaseTherapyGain s) = currentFrequency s"
    and "currentVolume (releaseTherapyGain s) = currentVolume s"
    and "currentSound (releaseTherapyGain s) = currentSound s"
    and "therapyStartTime (releaseTherapyGain s) = therapyStartTime s"
    and "therapyDuration (releaseTherapyGain s) = therapyDuration s"
    and "timerInterval (releaseTherapyGain s) = timerInterval s"
    and "onAutoStop (releaseTherapyGain s) = onAutoStop s"
    and "sampleRate (host (releaseTherapyGain s)) = sampleRate (host s)"
    and "mathRandom (host (releaseTherapyGain s)) = mathRandom (host s)"
    and "randomCalls (host (releaseTherapyGain s)) = randomCalls (host s)"
    and "timeDomain (host (releaseTherapyGain s)) = timeDomain (host s)"
    and "fftSize (host (releaseTherapyGain s)) = fftSize (host s)"
    and "created (host (releaseTherapyGain s)) = created (host s)"
    and "nodeKind (host (releaseTherapyGain s)) = nodeKind (host s)"
    and "started (host (releaseTherapyGain s)) = started (host s)"
    and "stopped (host (releaseTherapyGain s)) = stopped (host s)"
    and "frequencyParam (host (releaseTherapyGain s)) = frequencyParam (host s)"
    and "qParam (host (releaseTherapyGain s)) = qParam (host s)"
    and "gainParam (host (releaseTherapyGain s)) = gainParam (host s)"
    and "sourceBuffer (host (releaseTherapyGain s)) = sourceBuffer (host s)"
    and "intervals (host (releaseTherapyGain s)) = intervals (host s)"
    and "timersSet (host (releaseTherapyGain s)) = timersSet (host s)"
    and "timerText (host (releaseTherapyGain s)) = timerText (host s)"
    and "autoStopCalls (host (releaseTherapyGain s)) = autoStopCalls (host s)"
  by (cases "therapyGain s"; simp add: releaseTherapyGain_def host_ops)+

lemma releaseTestOscillator_frame:
  assumes "releaseTestOscillator s = Done t"
  shows "audioContext t = audioContext s"
    and "masterGain t = masterGain s"
    and "analyser t = analyser s"
    and "testGain t = testGain s"
    and "therapySource t = therapySource s"
    and "therapyGain t = therapyGain s"
    and "notchFilter t = notchFilter s"
    and "isTestTonePlaying t = isTestTonePlaying s"
    and "isTherapyPlaying t = isTherapyPlaying s"
    and "currentFrequency t = currentFrequency s"
    and "currentVolume t = currentVolume s"
    and "currentSound t = currentSound s"
    and "therapyStartTime t = therapyStartTime s"
    and "therapyDuration t = therapyDuration s"
    and "timerInterval t = timerInterval s"
    and "onAutoStop t = onAutoStop s"
    and "sampleRate (host t) = sampleRate (host s)"
    and "mathRandom (host t) = mathRandom (host s)"
    and "randomCalls (host t) = randomCalls (host s)"
    and "timeDomain (host t) = timeDomain (host s)"
    and "fftSize (host t) = fftSize (host s)"
    and "created (host t) = created (host s)"
    and "nodeKind (host t) = nodeKind (host s)"
    and "started (host t) = started (host s)"
    and "frequencyParam (host t) = frequencyParam (host s)"
    and "qParam (host t) = qParam (host s)"
    and "gainParam (host t) = gainParam (host s)"
    and "sourceBuffer (host t) = sourceBuffer (host s)"
    and "intervals (host t) = intervals (host s)"
    and "timersSet (host t) = timersSet (host s)"
    and "timerText (host t) = timerText (host s)"
    and "autoStopCalls (host t) = autoStopCalls (host s)"
  using assms
  by (cases "testOscillator s";
      auto simp: releaseTestOscillator_def host_ops split: if_splits)+

lemma releaseTestGain_frame:
  shows "audioContext (releaseTestGain s) = audioContext s"
    and "masterGain (releaseTestGain s) = masterGain s"
    and "analyser (releaseTestGain s) = analyser s"
    and "testOscillator (releaseTestGain s) = testOscillator s"
    and "therapySource (releaseTestGain s) = therapySource s"
    and "therapyGain (releaseTestGain s) = therapyGain s"
    and "notchFilter (releaseTestGain s) = notchFilter s"
    and "isTestTonePlaying (releaseTestGain s) = isTestTonePlaying s"
    and "isTherapyPlaying (releaseTestGain s) = isTherapyPlaying s"
    and "currentFrequency (releaseTestGain s) = currentFrequency s"
    and "currentVolume (releaseTestGain s) = currentVolume s"
    and "currentSound (releaseTestGain s) = currentSound s"
    and "therapyStartTime (releaseTestGain s) = therapyStartTime s"
    and "therapyDuration (releaseTestGain s) = therapyDuration s"
    and "timerInterval (releaseTestGain s) = timerInterval s"
    and "onAutoStop (releaseTestGain s) = onAutoStop s"
    and "sampleRate (host (releaseTestGain s)) = sampleRate (host s)"
    and "mathRandom (host (releaseTestGain s)) = mathRandom (host s)"
    and "randomCalls (host (releaseTestGain s)) = randomCalls (host s)"
    and "timeDomain (host (releaseTestGain s)) = timeDomain (host s)"
    and "fftSize (host (releaseTestGain s)) = fftSize (host s)"
    and "created (host (releaseTestGain s)) = created (host s)"
    and "nodeKind (host (releaseTestGain s)) = nodeKind (host s)"
    and "started (host (releaseTestGain s)) = started (host s)"
    and "stopped (host (releaseTestGain s)) = stopped (host s)"
    and "frequencyParam (host (releaseTestGain s)) = frequencyParam (host s)"
    and "qParam (host (releaseTestGain s)) = qParam (host s)"
    and "gainParam (host (releaseTestGain s)) = gainParam (host s)"
    and "sourceBuffer (host (releaseTestGain s)) = sourceBuffer (host s)"
    and "intervals (host (releaseTestGain s)) = intervals (host s)"
    and "timersSet (host (releaseTestGain s)) = timersSet (host s)"
    and "timerText (host (releaseTestGain s)) = timerText (host s)"
    and "autoStopCalls (host (releaseTestGain s)) = autoStopCalls (host s)"
  by (cases "testGain s"; simp add: releaseTestGain_def host_ops)+

lemma timerTick_frame:
  shows "audioContext (timerTick k now s) = audioContext s"
    and "masterGain (timerTick k now s) = masterGain s"
    and "analyser (timerTick k now s) = analyser s"
    and "testOscillator (timerTick k now s) = testOscillator s"
    and "testGain (timerTick k now s) = testGain s"
    and "therapySource (timerTick k now s) = therapySource s"
    and "therapyGain (timerTick k now s) = therapyGain s"
    and "notchFilter (timerTick k now s) = notchFilter s"
    and "isTestTonePlaying (timerTick k now s) = isTestTonePlaying s"
    and "isTherapyPlaying (timerTick k now s) = isTherapyPlaying s"
    and "currentFrequency (timerTick k now s) = currentFrequency s"
    and "currentVolume (timerTick k now s) = currentVolume s"
    and "currentSound (timerTick k now s) = currentSound s"
    and "therapyStartTime (timerTick k now s) = therapyStartTime s"
    and "timerInterval (timerTick k now s) = timerInterval s"
    and "onAutoStop (timerTick k now s) = onAutoStop s"
    and "sampleRate (host (timerTick k now s)) = sampleRate (host s)"
    and "mathRandom (host (timerTick k now s)) = mathRandom (host s)"
    and "randomCalls (host (timerTick k now s)) = randomCalls (host s)"
    and "timeDomain (host (timerTick k now s)) = timeDomain (host s)"
    and "fftSize (host (timerTick k now s)) = fftSize (host s)"
    and "created (host (timerTick k now s)) = created (host s)"
    and "nodeKind (host (timerTick k now s)) = nodeKind (host s)"
    and "edges (host (timerTick k now s)) = edges (host s)"
    and "started (host (timerTick k now s)) = started (host s)"
    and "stopped (host (timerTick k now s)) = stopped (host s)"
    and "frequencyParam (host (timerTick k now s)) = frequencyParam (host s)"
    and "qParam (host (timerTick k now s)) = qParam (host s)"
    and "gainParam (host (timerTick k now s)) = gainParam (host s)"
    and "sourceBuffer (host (timerTick k now s)) = sourceBuffer (host s)"
    and "intervals (host (timerTick k now s)) = intervals (host s)"
    and "timersSet (host (timerTick k now s)) = timersSet (host s)"
    and "autoStopCalls (host (timerTick k now s)) = autoStopCalls (host s)"
  by (simp_all add: timerTick_def updateTimerDisplay_def)

lemma resumeContext_frame:
  shows "masterGain (final (resumeContext s)) = masterGain s"
    and "analyser (final (resumeContext s)) = analyser s"
    and "testOscillator (final (resumeContext s)) = testOscillator s"
    and "testGain (final (resumeContext s)) = testGain s"
    and "therapySource (final (resumeContext s)) = therapySource s"
    and "therapyGain (final (resumeContext s)) = therapyGain s"
    and "notchFilter (final (resumeContext s)) = notchFilter s"
    and "isTestTonePlaying (final (resumeContext s)) = isTestTonePlaying s"
    and "isTherapyPlaying (final (resumeContext s)) = isTherapyPlaying s"
    and "currentFrequency (final (resumeContext s)) = currentFrequency s"
    and "currentVolume (final (resumeContext s)) = currentVolume s"
    and "currentSound (final (resumeContext s)) = currentSound s"
    and "therapyStartTime (final (resumeContext s)) = therapyStartTime s"
    and "therapyDuration (final (resumeContext s)) = therapyDuration s"
    and "timerInterval (final (resumeContext s)) = timerInterval s"
    and "onAutoStop (final (resumeContext s)) = onAutoStop s"
    and "sampleRate (host (final (resumeContext s))) = sampleRate (host s)"
    and "mathRandom (host (final (resumeContext s))) = mathRandom (host s)"
    and "randomCalls (host (final (resumeContext s))) = randomCalls (host s)"
    and "timeDomain (host (final (resumeContext s))) = timeDomain (host s)"
    and "fftSize (host (final (resumeContext s))) = fftSize (host s)"
    and "created (host (final (resumeContext s))) = created (host s)"
    and "nodeKind (host (final (resumeContext s))) = nodeKind (host s)"
    and "edges (host (final (resumeContext s))) = edges (host s)"
    and "started (host (final (resumeContext s))) = started (host s)"
    and "stopped (host (final (resumeContext s))) = stopped (host s)"
    and "frequencyParam (host (final (resumeContext s))) = frequencyParam (host s)"
    and "qParam (host (final (resumeContext s))) = qParam (host s)"
    and "gainParam (host (final (resumeContext s))) = gainParam (host s)"
    and "sourceBuffer (host (final (resumeContext s))) = sourceBuffer (host s)"
    and "intervals (host (final (resumeContext s))) = intervals (host s)"
    and "timersSet (host (final (resumeContext s))) = timersSet (host s)"
    and "timerText (host (final (resumeContext s))) = timerText (host s)"
    and "autoStopCalls (host (final (resumeContext s))) = autoStopCalls (host s)"
  by (cases "audioContext s"; simp add: resumeContext_def)+

subsection \<open>What each block changes\<close>

lemma releaseForSwitch_edges:
  "set (edges (host (releaseForSwitch s))) \<subseteq> set (edges (host s))"
  by (cases "therapySource s") (auto simp: releaseForSwitch_def host_ops)

lemma createSource_effect:
  assumes "createSource ty s = (src, t)"
  shows "src = created (host s)" and "therapySource t = Some src"
    and "created (host t) = Suc (created (host s))"
  using assms by (auto simp: createSource_def host_ops Let_def split: prod.splits)

lemma ensureNotchFilter_effect:
  assumes "ensureNotchFilter s = (f, t)"
  shows "notchFilter t = Some f"
    and "(notchFilter s = Some f \<and> created (host t) = created (host s)) \<or>
         (notchFilter s = None \<and> f = created (host s) \<and>
          created (host t) = Suc (created (host s)))"
  using assms
  by (cases "notchFilter s";
      auto simp: ensureNotchFilter_def createNotchFilter_def host_ops Let_def split: prod.splits)+

lemma ensureTherapyGain_effect:
  assumes "ensureTherapyGain s = (g, t)"
  shows "therapyGain t = Some g"
    and "(therapyGain s = Some g \<and> created (host t) = created (host s)) \<or>
         (therapyGain s = None \<and> g = created (host s) \<and>
          created (host t) = Suc (created (host s)))"
  using assms
  by (cases "therapyGain s";
      auto simp: ensureTherapyGain_def host_ops Let_def split: prod.splits)+

lemma connectGraph_effect:
  assumes "analyser s = Some an"
  shows "connectGraph src f g s = Done (final (connectGraph src f g s))"
    and "isTherapyPlaying (final (connectGraph src f g s)) = True"
    and "set (started (host (final (connectGraph src f g s)))) = insert src (set (started (host s)))"
    and "set (edges (host (final (connectGraph src f g s)))) =
           insert (g, an) (insert (f, g) (insert (src, f) (set (edges (host s)))))"
  using assms by (simp_all add: connectGraph_def host_ops Let_def)

lemma startTimer_effect:
  "therapyStartTime (startTimer now s) = Some now"
  "timerInterval (startTimer now s) = Some (timersSet (host s) + 1)"
  "intervals (host (startTimer now s)) = (timersSet (host s) + 1) # intervals (host s)"
  "timersSet (host (startTimer now s)) = timersSet (host s) + 1"
  by (simp_all add: startTimer_def host_ops)

lemma stopTimer_effect: "timerInterval (stopTimer s) = None"
  by (cases "timerInterval s") (simp_all add: stopTimer_def)

lemma releaseTherapySource_effect:
  assumes "releaseTherapySource s = Done t"
  shows "therapySource t = None"
    and "set (edges (host t)) = {e \<in> set (edges (host s)). Some (fst e) \<noteq> therapySource s}"
  using assms
  by (cases "therapySource s";
      auto simp: releaseTherapySource_def host_ops split: if_splits)+

lemma releaseTherapySource_raised: "releaseTherapySource s = Raised e t \<Longrightarrow> t = s"
  by (cases "therapySource s") (auto simp: releaseTherapySource_def split: if_splits)

lemma releaseTherapySource_done:
  assumes "set_option (therapySource s) \<subseteq> set (started (host s))"
  obtains s1 where "releaseTherapySource s = Done s1"
  using assms by (cases "therapySource s") (auto simp: releaseTherapySource_def)

lemma releaseNotchFilter_effect:
  "notchFilter (releaseNotchFilter s) = None"
  "set (edges (host (releaseNotchFilter s))) =
     {e \<in> set (edges (host s)). Some (fst e) \<noteq> notchFilter s}"
  by (cases "notchFilter s"; auto simp: releaseNotchFilter_def host_ops)+

lemma releaseTherapyGain_effect:
  "therapyGain (releaseTherapyGain s) = None"
  "set (edges (host (releaseTherapyGain s))) =
     {e \<in> set (edges (host s)). Some (fst e) \<noteq> therapyGain s}"
  by (cases "therapyGain s"; auto simp: releaseTherapyGain_def host_ops)+

lemma releaseTestOscillator_effect:
  assumes "releaseTestOscillator s = Done t"
  shows "testOscillator t = None"
    and "set (edges (host t)) = {e \<in> set (edges (host s)). Some (fst e) \<noteq> testOscillator s}"
  using assms
  by (cases "testOscillator s";
      auto simp: releaseTestOscillator_def host_ops split: if_splits)+

lemma releaseTestOscillator_raised: "releaseTestOscillator s = Raised e t \<Longrightarrow> t = s"
  by (cases "testOscillator s") (auto simp: releaseTestOscillator_def split: if_splits)

lemma releaseTestGain_effect:
  "testGain (releaseTestGain s) = None"
  "set (edges (host (releaseTestGain s))) =
     {e \<in> set (edges (host s)). Some (fst e) \<noteq> testGain s}"
  by (cases "testGain s"; auto simp: releaseTestGain_def host_ops)+

lemma timerTick_effect:
  "k \<in> set (intervals (host s)) \<Longrightarrow> therapyStartTime s = Some t0 \<Longrightarrow>
   therapyDuration (timerTick k now s) = (now - t0) div 1000"
  "k \<notin> set (intervals (host s)) \<Longrightarrow> timerTick k now s = s"
  by (simp_all add: timerTick_def updateTimerDisplay_def)

subsection \<open>\<open>stopTherapy\<close> and \<open>startTherapy\<close> as a whole\<close>

lemma stopTherapy_steps:
  assumes "releaseTherapySource s = Done s1"
  shows "stopTherapy s =
           Done (stopTimer ((releaseTherapyGain (releaseNotchFilter s1))\<lparr>isTherapyPlaying := False\<rparr>))"
  by (simp add: stopTherapy_def andThen_def assms)

lemma stopTherapy_result:
  fixes s :: engine
  assumes "set_option (therapySource s) \<subseteq> set (started (host s))"
  defines "t \<equiv> final (stopTherapy s)"
  shows "stopTherapy s = Done t"
    and "therapySource t = None" and "notchFilter t = None" and "therapyGain t = None"
    and "isTherapyPlaying t = False" and "timerInterval t = None"
    and "audioContext t = audioContext s"
    and "masterGain t = masterGain s" and "analyser t = analyser s"
    and "testOscillator t = testOscillator s" and "testGain t = testGain s"
    and "created (host t) = created (host s)" and "started (host t) = started (host s)"
    and "randomCalls (host t) = randomCalls (host s)"
    and "sourceBuffer (host t) = sourceBuffer (host s)"
    and "set (edges (host t)) =
           {e \<in> set (edges (host s)). Some (fst e) \<noteq> therapySource s \<and>
              Some (fst e) \<noteq> notchFilter s \<and> Some (fst e) \<noteq> therapyGain s}"
proof -
  from assms(1) obtain s1 where s1: "releaseTherapySource s = Done s1"
    by (rule releaseTherapySource_done)
  have t: "t = stopTimer ((releaseTherapyGain (releaseNotchFilter s1))\<lparr>isTherapyPlaying := False\<rparr>)"
    unfolding t_def by (simp add: stopTherapy_steps [OF s1])
  show "stopTherapy s = Done t"
    unfolding t by (rule stopTherapy_steps [OF s1])
  note f = stopTimer_frame stopTimer_effect releaseTherapyGain_frame releaseTherapyGain_effect
    releaseNotchFilter_frame releaseNotchFilter_effect
    releaseTherapySource_frame [OF s1] releaseTherapySource_effect [OF s1]
  show "therapySource t = None" "notchFilter t = None" "therapyGain t = None"
    "isTherapyPlaying t = False" "timerInterval t = None"
    "audioContext t = audioContext s"
    "masterGain t = masterGain s" "analyser t = analyser s"
    "testOscillator t = testOscillator s" "testGain t = testGain s"
    "created (host t) = created (host s)" "started (host t) = started (host s)"
    "randomCalls (host t) = randomCalls (host s)"
    "sourceBuffer (host t) = sourceBuffer (host s)"
    unfolding t by (simp_all add: f)
  show "set (edges (host t)) =
           {e \<in> set (edges (host s)). Some (fst e) \<noteq> therapySource s \<and>
              Some (fst e) \<noteq> notchFilter s \<and> Some (fst e) \<noteq> therapyGain s}"
    unfolding t by (simp add: f)
qed

text \<open>The toggle stop leaves the selection, the frequency and the volume, also when it throws.\<close>

lemma stopTherapy_settings:
  "currentSound (final (stopTherapy s)) = currentSound s"
  "currentFrequency (final (stopTherapy s)) = currentFrequency s"
  "currentVolume (final (stopTherapy s)) = currentVolume s"
proof -
  have "currentSound (final (stopTherapy s)) = currentSound s \<and>
        currentFrequency (final (stopTherapy s)) = currentFrequency s \<and>
        currentVolume (final (stopTherapy s)) = currentVolume s"
  proof (cases "releaseTherapySource s")
    case (Done s1)
    show ?thesis
      by (simp add: stopTherapy_steps [OF Done] stopTimer_frame releaseTherapyGain_frame
          releaseNotchFilter_frame releaseTherapySource_frame [OF Done])
  next
    case (Raised e t)
    then show ?thesis
      using releaseTherapySource_raised [OF Raised] by (simp add: stopTherapy_def andThen_def)
  qed
  then show "currentSound (final (stopTherapy s)) = currentSound s"
    "currentFrequency (final (stopTherapy s)) = currentFrequency s"
    "currentVolume (final (stopTherapy s)) = currentVolume s"
    by simp_all
qed

text \<open>What \<open>stopTherapy\<close> does to the host: the source stopped, the interval cleared.\<close>

lemma releaseTherapySource_stopped:
  assumes "releaseTherapySource s = Done t"
  shows "set (stopped (host t)) = set (stopped (host s)) \<union> set_option (therapySource s)"
  using assms
  by (cases "therapySource s") (auto simp: releaseTherapySource_def host_ops split: if_splits)

lemma stopTimer_intervals:
  "set (intervals (host (stopTimer s))) = set (intervals (host s)) - set_option (timerInterval s)"
  by (cases "timerInterval s") (auto simp: stopTimer_def host_ops)

lemma stopTherapy_teardown:
  assumes "set_option (therapySource s) \<subseteq> set (started (host s))"
  shows "set (stopped (host (final (stopTherapy s)))) =
           set (stopped (host s)) \<union> set_option (therapySource s)"
    and "set (intervals (host (final (stopTherapy s)))) =
           set (intervals (host s)) - set_option (timerInterval s)"
proof -
  from assms obtain s1 where s1: "releaseTherapySource s = Done s1"
    by (rule releaseTherapySource_done)
  note f = stopTimer_frame stopTimer_intervals releaseTherapyGain_frame
    releaseNotchFilter_frame releaseTherapySource_frame [OF s1]
    releaseTherapySource_stopped [OF s1]
  show "set (stopped (host (final (stopTherapy s)))) =
           set (stopped (host s)) \<union> set_option (therapySource s)"
    "set (intervals (host (final (stopTherapy s)))) =
           set (intervals (host s)) - set_option (timerInterval s)"
    by (simp_all add: stopTherapy_steps [OF s1] f)
qed

lemma startTherapyResumed_start:
  assumes "\<not> (isTherapyPlaying s \<and> \<not> sw)" and "audioContext s = Some c"
  obtains src s3 f s4 g s5 where
    "createSource ty ((if sw then releaseForSwitch s else s)\<lparr>currentSound := ty\<rparr>) = (src, s3)"
    and "ensureNotchFilter s3 = (f, s4)" and "ensureTherapyGain s4 = (g, s5)"
    and "startTherapyResumed ty sw now s =
           andThen (connectGraph src f g s5)
             (\<lambda>s6. Done (if sw then s6 else startTimer now s6))"
proof -
  let ?s2 = "(if sw then releaseForSwitch s else s)\<lparr>currentSound := ty\<rparr>"
  obtain src s3 where a: "createSource ty ?s2 = (src, s3)" by (cases "createSource ty ?s2")
  obtain f s4 where b: "ensureNotchFilter s3 = (f, s4)" by (cases "ensureNotchFilter s3")
  obtain g s5 where c: "ensureTherapyGain s4 = (g, s5)" by (cases "ensureTherapyGain s4")
  have ctx: "audioContext ?s2 = Some c"
    using assms(2) by (simp add: releaseForSwitch_frame)
  have e: "(isTherapyPlaying s \<and> \<not> sw) = False"
    using assms(1) by blast
  have "startTherapyResumed ty sw now s =
          andThen (connectGraph src f g s5) (\<lambda>s6. Done (if sw then s6 else startTimer now s6))"
    unfolding startTherapyResumed_def e using a b c ctx
    by (simp add: Let_def)
  with a b c show ?thesis by (rule that)
qed

section \<open>The invariant of reachable engines\<close>

lemma linked_insert:
  "linked a b (List.insert e es) = (linked a b es \<or> (a = Some (fst e) \<and> b = Some (snd e)))"
  by (cases a; cases b; cases e) auto

lemma coherent_frame:
  "(audioContext t = None) = (audioContext s = None) \<Longrightarrow> masterGain t = masterGain s \<Longrightarrow>
   analyser t = analyser s \<Longrightarrow>
   testOscillator t = testOscillator s \<Longrightarrow> testGain t = testGain s \<Longrightarrow>
   therapySource t = therapySource s \<Longrightarrow> notchFilter t = notchFilter s \<Longrightarrow>
   therapyGain t = therapyGain s \<Longrightarrow>
   started (host t) = started (host s) \<Longrightarrow> created (host t) = created (host s) \<Longrightarrow>
   edges (host t) = edges (host s) \<Longrightarrow> coherent t = coherent s"
  unfolding coherent_def node_sets by (simp only:)

lemma wf_frame:
  "(audioContext t = None) = (audioContext s = None) \<Longrightarrow> masterGain t = masterGain s \<Longrightarrow>
   analyser t = analyser s \<Longrightarrow>
   testOscillator t = testOscillator s \<Longrightarrow> testGain t = testGain s \<Longrightarrow>
   therapySource t = therapySource s \<Longrightarrow> notchFilter t = notchFilter s \<Longrightarrow>
   therapyGain t = therapyGain s \<Longrightarrow> isTherapyPlaying t = isTherapyPlaying s \<Longrightarrow>
   started (host t) = started (host s) \<Longrightarrow> created (host t) = created (host s) \<Longrightarrow>
   edges (host t) = edges (host s) \<Longrightarrow> wellFormed t = wellFormed s"
  unfolding wellFormed_def coherent_def node_sets by (simp only:)

lemma wf_new: "wellFormed (newEngine ctx (newHost sr rnd wave))"
  by (cases ctx)
     (simp_all add: wellFormed_def coherent_def newEngine_def initAudioContext_def newHost_def
        host_ops node_sets destination_def Let_def)

lemma wf_graph:
  assumes "wellFormed s"
  shows "graphInvariant s"
proof (cases "isTherapyPlaying s")
  case True
  with assms have "linked (therapySource s) (notchFilter s) (edges (host s))"
    "linked (notchFilter s) (therapyGain s) (edges (host s))"
    "linked (therapyGain s) (analyser s) (edges (host s))"
    by (simp_all add: wellFormed_def)
  then show ?thesis using True
    by (auto simp: graphInvariant_def linked_def split: option.splits)
next
  case False
  with assms have "therapyNodes s = {}"
    and "\<forall>x y. (x, y) \<in> set (edges (host s)) \<longrightarrow> Some y = analyser s \<longrightarrow> Some x = therapyGain s"
    by (simp_all add: wellFormed_def coherent_def)
  then show ?thesis using False
    by (auto simp: graphInvariant_def therapyNodes_def list_all_iff split: option.splits) blast
qed

lemma wf_andThen:
  "wellFormed (final r) \<Longrightarrow> (\<And>s. wellFormed s \<Longrightarrow> wellFormed (final (f s))) \<Longrightarrow>
   wellFormed (final (andThen r f))"
  by (cases r) (simp_all add: andThen_def)

lemma coherent_release:
  assumes "coherent s"
  shows "coherent (releaseForSwitch s)"
proof -
  have sub: "\<And>x y. (x, y) \<in> set (edges (host (releaseForSwitch s))) \<Longrightarrow>
                   (x, y) \<in> set (edges (host s))"
    using releaseForSwitch_edges [of s] by blast
  show ?thesis
    using assms unfolding coherent_def node_sets
    by (simp only: releaseForSwitch_frame) (meson sub)
qed

lemma coherent_currentSound: "coherent (s\<lparr>currentSound := x\<rparr>) = coherent s"
  by (rule coherent_frame) simp_all

lemma coherent_createSource:
  assumes "coherent s" and "audioContext s \<noteq> None" and "createSource ty s = (src, t)"
  shows "coherent t"
  using assms(1,2) unfolding coherent_def node_sets
  by (simp only: createSource_frame [OF assms(3)] createSource_effect(2,3) [OF assms(3)]
        createSource_effect(1) [OF assms(3)])
     (auto simp: less_Suc_eq)

lemma coherent_ensureNotchFilter:
  assumes "coherent s" and "audioContext s \<noteq> None" and "ensureNotchFilter s = (f, t)"
  shows "coherent t"
  using assms(1,2) ensureNotchFilter_effect(2) [OF assms(3)] unfolding coherent_def node_sets
  by (simp only: ensureNotchFilter_frame [OF assms(3)] ensureNotchFilter_effect(1) [OF assms(3)])
     (auto simp: less_Suc_eq)

lemma coherent_ensureTherapyGain:
  assumes "coherent s" and "audioContext s \<noteq> None" and "ensureTherapyGain s = (g, t)"
  shows "coherent t"
  using assms(1,2) ensureTherapyGain_effect(2) [OF assms(3)] unfolding coherent_def node_sets
  by (simp only: ensureTherapyGain_frame [OF assms(3)] ensureTherapyGain_effect(1) [OF assms(3)])
     (auto simp: less_Suc_eq)

lemma wf_connectGraph:
  assumes "coherent s" and "therapySource s = Some src" and "notchFilter s = Some f"
    and "therapyGain s = Some g" and "analyser s = Some an"
  shows "wellFormed (final (connectGraph src f g s))"
  using assms unfolding wellFormed_def coherent_def node_sets linked_def
  by (simp only: connectGraph_frame [OF assms(5)] connectGraph_effect(2-4) [OF assms(5)]) auto

lemma wf_stopTherapy:
  assumes "wellFormed s"
  shows "wellFormed (final (stopTherapy s))"
proof -
  from assms have st: "set_option (therapySource s) \<subseteq> set (started (host s))"
    by (simp add: wellFormed_def)
  note f = stopTherapy_result(2-16) [OF st]
  from assms show ?thesis
    unfolding wellFormed_def coherent_def node_sets
    by (simp only: f) auto
qed

lemma wf_startTimer: "wellFormed (startTimer now s) = wellFormed s"
  by (rule wf_frame) (simp_all add: startTimer_frame)

lemma wf_currentSound: "wellFormed (s\<lparr>currentSound := x\<rparr>) = wellFormed s"
  by (rule wf_frame) simp_all

lemma wf_startTherapyResumed:
  assumes "wellFormed s"
  shows "wellFormed (final (startTherapyResumed ty sw now s))"
proof (cases "isTherapyPlaying s \<and> \<not> sw")
  case True
  then show ?thesis using assms by (simp add: startTherapyResumed_def wf_stopTherapy)
next
  case False
  from assms have coh: "coherent s" by (simp add: wellFormed_def)
  show ?thesis
  proof (cases "audioContext s")
    case None
    with coh have "therapySource s = None"
      by (simp add: coherent_def node_sets)
    then have "releaseForSwitch s = s" by (simp add: releaseForSwitch_def)
    with None have "final (startTherapyResumed ty sw now s) = s\<lparr>currentSound := ty\<rparr>"
      using False by (auto simp: startTherapyResumed_def Let_def)
    then show ?thesis using assms by (simp add: wf_currentSound)
  next
    case (Some c)
    let ?s2 = "(if sw then releaseForSwitch s else s)\<lparr>currentSound := ty\<rparr>"
    from False Some obtain src s3 f s4 g s5 where
      a: "createSource ty ?s2 = (src, s3)"
      and b: "ensureNotchFilter s3 = (f, s4)" and c: "ensureTherapyGain s4 = (g, s5)"
      and r: "startTherapyResumed ty sw now s =
           andThen (connectGraph src f g s5)
             (\<lambda>s6. Done (if sw then s6 else startTimer now s6))"
      by (rule startTherapyResumed_start)
    have ctx2: "audioContext ?s2 \<noteq> None" using Some by (simp add: releaseForSwitch_frame)
    have coh2: "coherent ?s2"
      using coh by (simp add: coherent_currentSound coherent_release)
    have coh3: "coherent s3" using coh2 ctx2 a by (rule coherent_createSource)
    have ctx3: "audioContext s3 \<noteq> None" using ctx2 createSource_frame(1) [OF a] by simp
    have coh4: "coherent s4" using coh3 ctx3 b by (rule coherent_ensureNotchFilter)
    have ctx4: "audioContext s4 \<noteq> None" using ctx3 ensureNotchFilter_frame(1) [OF b] by simp
    have coh5: "coherent s5" using coh4 ctx4 c by (rule coherent_ensureTherapyGain)
    have ctx5: "audioContext s5 \<noteq> None" using ctx4 ensureTherapyGain_frame(1) [OF c] by simp
    from coh5 ctx5 obtain an where an: "analyser s5 = Some an"
      by (auto simp: coherent_def)
    have src: "therapySource s5 = Some src"
      by (simp add: ensureTherapyGain_frame [OF c] ensureNotchFilter_frame [OF b]
          createSource_effect [OF a])
    have f: "notchFilter s5 = Some f"
      by (simp add: ensureTherapyGain_frame [OF c] ensureNotchFilter_effect [OF b])
    have g: "therapyGain s5 = Some g"
      by (simp add: ensureTherapyGain_effect [OF c])
    have "wellFormed (final (connectGraph src f g s5))"
      using coh5 src f g an by (rule wf_connectGraph)
    then show ?thesis
      unfolding r by (rule wf_andThen) (simp add: wf_startTimer)
  qed
qed

lemma wf_resume: "wellFormed (final (resumeContext s)) = wellFormed s"
  by (rule wf_frame) (simp_all add: resumeContext_frame, simp add: resumeContext_def split: option.splits)

lemma wf_atCurrentTime_freq:
  "wellFormed (final (atCurrentTime s (setFrequencyParam n v))) = wellFormed s"
  by (rule wf_frame) (simp_all add: atCurrentTime_def host_ops split: option.splits)

lemma wf_atCurrentTime_gain:
  "wellFormed (final (atCurrentTime s (setGainParam n v))) = wellFormed s"
  by (rule wf_frame) (simp_all add: atCurrentTime_def host_ops split: option.splits)

lemma wf_currentFrequency: "wellFormed (s\<lparr>currentFrequency := f\<rparr>) = wellFormed s"
  by (rule wf_frame) simp_all

lemma wf_currentVolume: "wellFormed (s\<lparr>currentVolume := f\<rparr>) = wellFormed s"
  by (rule wf_frame) simp_all

lemma wf_setFrequency: "wellFormed s \<Longrightarrow> wellFormed (final (setFrequency f s))"
  unfolding setFrequency_def
  by (rule wf_andThen)
     (simp_all add: Let_def wf_currentFrequency wf_atCurrentTime_freq split: option.splits)

lemma wf_setVolume: "wellFormed s \<Longrightarrow> wellFormed (final (setVolume f s))"
  unfolding setVolume_def
  by (simp add: Let_def wf_currentVolume wf_atCurrentTime_gain split: option.splits)

lemma wf_stopTimer: "wellFormed (stopTimer s) = wellFormed s"
  by (rule wf_frame) (simp_all add: stopTimer_frame)

lemma wf_updateTimerDisplay: "wellFormed (updateTimerDisplay s) = wellFormed s"
  by (rule wf_frame) (simp_all add: updateTimerDisplay_def)

lemma wf_timerTick: "wellFormed (timerTick k now s) = wellFormed s"
  by (rule wf_frame) (simp_all add: timerTick_frame)

lemma getAnalyserData_state: "snd (getAnalyserData s) = s"
  by (simp add: getAnalyserData_def Let_def split: option.splits)

lemma wf_registerAutoStop: "wellFormed (registerAutoStop s) = wellFormed s"
  by (rule wf_frame) (simp_all add: registerAutoStop_def)

lemma wf_startTherapy: "wellFormed s \<Longrightarrow> wellFormed (final (startTherapy t sw now s))"
  unfolding startTherapy_def
  by (rule wf_andThen) (simp_all add: wf_resume wf_startTherapyResumed)

lemma wf_audioContext:
  "wellFormed s \<Longrightarrow> audioContext s \<noteq> None \<Longrightarrow> wellFormed (s\<lparr>audioContext := Some c\<rparr>)"
  using wf_frame [of "s\<lparr>audioContext := Some c\<rparr>" s] by simp

lemma wf_selectSound: "wellFormed s \<Longrightarrow> wellFormed (final (selectSound t now s))"
  by (simp add: selectSound_def Let_def wf_currentSound wf_startTherapy)

lemma wf_stopTestTone:
  assumes "wellFormed s"
  shows "wellFormed (final (stopTestTone s))"
proof (cases "releaseTestOscillator s")
  case (Raised e t)
  then show ?thesis
    using assms releaseTestOscillator_raised [OF Raised]
    by (simp add: stopTestTone_def andThen_def)
next
  case (Done s1)
  have t: "final (stopTestTone s) = (releaseTestGain s1)\<lparr>isTestTonePlaying := False\<rparr>"
    by (simp add: stopTestTone_def andThen_def Done)
  note f = releaseTestGain_frame releaseTestGain_effect
    releaseTestOscillator_frame [OF Done] releaseTestOscillator_effect [OF Done]
  have g: "audioContext (final (stopTestTone s)) = audioContext s"
    "masterGain (final (stopTestTone s)) = masterGain s"
    "analyser (final (stopTestTone s)) = analyser s"
    "therapySource (final (stopTestTone s)) = therapySource s"
    "notchFilter (final (stopTestTone s)) = notchFilter s"
    "therapyGain (final (stopTestTone s)) = therapyGain s"
    "isTherapyPlaying (final (stopTestTone s)) = isTherapyPlaying s"
    "testOscillator (final (stopTestTone s)) = None"
    "testGain (final (stopTestTone s)) = None"
    "created (host (final (stopTestTone s))) = created (host s)"
    "started (host (final (stopTestTone s))) = started (host s)"
    "set (edges (host (final (stopTestTone s)))) =
       {e \<in> set (edges (host s)). Some (fst e) \<noteq> testOscillator s \<and> Some (fst e) \<noteq> testGain s}"
    unfolding t by (simp_all add: f)
  from assms show ?thesis
    unfolding wellFormed_def coherent_def node_sets linked_def
    by (simp only: g) (auto split: option.splits)
qed

lemma playTestTone_start:
  fixes s :: engine
  assumes "\<not> isTestTonePlaying s" and "audioContext s = Some c" and "masterGain s = Some mg"
  defines "t \<equiv> final (playTestToneResumed s)"
  shows "audioContext t = audioContext s"
    and "masterGain t = masterGain s" and "analyser t = analyser s"
    and "therapySource t = therapySource s"
    and "notchFilter t = notchFilter s" and "therapyGain t = therapyGain s"
    and "isTherapyPlaying t = isTherapyPlaying s"
    and "testOscillator t = Some (created (host s))"
    and "testGain t = Some (Suc (created (host s)))"
    and "created (host t) = Suc (Suc (created (host s)))"
    and "set (started (host t)) = insert (created (host s)) (set (started (host s)))"
    and "set (edges (host t)) =
           insert (Suc (created (host s)), mg)
             (insert (created (host s), Suc (created (host s))) (set (edges (host s))))"
  using assms(1-3) unfolding t_def
  by (simp_all add: playTestToneResumed_def host_ops Let_def)

lemma wf_playTestToneResumed:
  assumes "wellFormed s"
  shows "wellFormed (final (playTestToneResumed s))"
proof (cases "isTestTonePlaying s")
  case True
  then show ?thesis using assms by (simp add: playTestToneResumed_def wf_stopTestTone)
next
  case False
  show ?thesis
  proof (cases "audioContext s")
    case None
    then show ?thesis using assms False by (simp add: playTestToneResumed_def)
  next
    case (Some c)
    with assms obtain mg where mg: "masterGain s = Some mg"
      by (auto simp: wellFormed_def coherent_def)
    note f = playTestTone_start [OF False Some mg]
    from assms mg show ?thesis
      unfolding wellFormed_def coherent_def node_sets linked_def
      by (simp only: f) (auto split: option.splits)
  qed
qed

lemma wf_playTestTone: "wellFormed s \<Longrightarrow> wellFormed (final (playTestTone s))"
  unfolding playTestTone_def
  by (rule wf_andThen) (simp_all add: wf_resume wf_playTestToneResumed)

lemma wf_destroy: "wellFormed s \<Longrightarrow> wellFormed (final (destroy s))"
  unfolding destroy_def
  apply (rule wf_andThen)
   apply (erule wf_stopTestTone)
  apply (rule wf_andThen)
   apply (erule wf_stopTherapy)
  apply (simp add: wf_audioContext split: option.splits)
  done

lemma wf_perform: "wellFormed s \<Longrightarrow> wellFormed (final (perform c s))"
  by (cases c)
     (simp_all add: wf_setFrequency wf_setVolume wf_resume wf_playTestTone
        wf_playTestToneResumed wf_stopTestTone wf_startTherapy wf_startTherapyResumed
        wf_stopTherapy wf_startTimer wf_stopTimer wf_updateTimerDisplay wf_timerTick
        getAnalyserData_state wf_destroy wf_selectSound wf_registerAutoStop)

lemma reachable_wellFormed: "reachable s \<Longrightarrow> wellFormed s"
  by (induction rule: reachable.induct) (simp_all add: wf_new wf_perform)

text \<open>
  A start or a switch that gets as far as the graph: what the engine holds afterwards.
\<close>

lemma startTherapyResumed_result:
  fixes ty :: string and now :: int and sw :: bool and s :: engine
  assumes "\<not> (isTherapyPlaying s \<and> \<not> sw)" and "audioContext s = Some c"
    and "analyser s = Some an"
  defines "t \<equiv> final (startTherapyResumed ty sw now s)"
  shows "startTherapyResumed ty sw now s = Done t"
    and "isTherapyPlaying t"
    and "therapySource t = Some (created (host s))"
    and "notchFilter t \<noteq> None" and "therapyGain t \<noteq> None"
    and "notchFilter s \<noteq> None \<Longrightarrow> notchFilter t = notchFilter s"
    and "therapyGain s \<noteq> None \<Longrightarrow> therapyGain t = therapyGain s"
    and "notchFilter s \<noteq> None \<Longrightarrow> therapyGain s \<noteq> None \<Longrightarrow>
         created (host t) = Suc (created (host s))"
    and "currentSound t = ty"
    and "sw \<Longrightarrow> therapyStartTime t = therapyStartTime s \<and> timerInterval t = timerInterval s \<and>
               intervals (host t) = intervals (host s) \<and> timersSet (host t) = timersSet (host s)"
    and "\<not> sw \<Longrightarrow> therapyStartTime t = Some now \<and>
               timerInterval t = Some (timersSet (host s) + 1) \<and>
               intervals (host t) = (timersSet (host s) + 1) # intervals (host s)"
    and "therapyDuration t = therapyDuration s"
    and "autoStopCalls (host t) = autoStopCalls (host s)" and "onAutoStop t = onAutoStop s"
    and "currentFrequency t = currentFrequency s" and "currentVolume t = currentVolume s"
proof -
  let ?s1 = "if sw then releaseForSwitch s else s"
  let ?s2 = "?s1\<lparr>currentSound := ty\<rparr>"
  from assms(1,2) obtain src s3 f s4 g s5 where
    a: "createSource ty ?s2 = (src, s3)"
    and b: "ensureNotchFilter s3 = (f, s4)" and c: "ensureTherapyGain s4 = (g, s5)"
    and r: "startTherapyResumed ty sw now s =
           andThen (connectGraph src f g s5)
             (\<lambda>s6. Done (if sw then s6 else startTimer now s6))"
    by (rule startTherapyResumed_start)
  note fr = ensureTherapyGain_frame [OF c] ensureNotchFilter_frame [OF b]
    createSource_frame [OF a] releaseForSwitch_frame
  have an5: "analyser s5 = Some an"
    using assms(3) by (simp add: fr)
  let ?s6 = "final (connectGraph src f g s5)"
  have t: "t = (if sw then ?s6 else startTimer now ?s6)"
    unfolding t_def r
    by (subst connectGraph_effect(1) [OF an5]) (simp add: andThen_def)
  show "startTherapyResumed ty sw now s = Done t"
    unfolding t r
    by (subst connectGraph_effect(1) [OF an5]) (simp add: andThen_def)
  note all = connectGraph_frame [OF an5] connectGraph_effect(2-4) [OF an5] startTimer_frame
    startTimer_effect fr
  show "isTherapyPlaying t"
    unfolding t by (simp add: all)
  have src: "src = created (host s)"
    using createSource_effect(1) [OF a] by (simp add: releaseForSwitch_frame)
  show "therapySource t = Some (created (host s))"
    unfolding t using createSource_effect(2) [OF a] src by (simp add: all)
  have nf: "notchFilter t = Some f"
    unfolding t using ensureNotchFilter_effect(1) [OF b] by (simp add: all)
  have tg: "therapyGain t = Some g"
    unfolding t using ensureTherapyGain_effect(1) [OF c] by (simp add: all)
  show "notchFilter t \<noteq> None" "therapyGain t \<noteq> None"
    using nf tg by simp_all
  have nf3: "notchFilter s3 = notchFilter s" by (simp add: fr)
  have tg4: "therapyGain s4 = therapyGain s" by (simp add: fr)
  show "notchFilter t = notchFilter s" if "notchFilter s \<noteq> None"
    using that nf nf3 ensureNotchFilter_effect(2) [OF b] by auto
  show "therapyGain t = therapyGain s" if "therapyGain s \<noteq> None"
    using that tg tg4 ensureTherapyGain_effect(2) [OF c] by auto
  have cr: "created (host t) = created (host s5)"
    unfolding t by (simp add: all)
  show "created (host t) = Suc (created (host s))"
    if "notchFilter s \<noteq> None" and "therapyGain s \<noteq> None"
    using that nf3 tg4 ensureNotchFilter_effect(2) [OF b] ensureTherapyGain_effect(2) [OF c]
      createSource_effect(3) [OF a] cr
    by (auto simp: releaseForSwitch_frame)
  show "currentSound t = ty"
    unfolding t by (simp add: all)
  show "therapyStartTime t = therapyStartTime s \<and> timerInterval t = timerInterval s \<and>
        intervals (host t) = intervals (host s) \<and> timersSet (host t) = timersSet (host s)"
    if sw
    unfolding t using that by (simp add: all)
  show "therapyStartTime t = Some now \<and>
        timerInterval t = Some (timersSet (host s) + 1) \<and>
        intervals (host t) = (timersSet (host s) + 1) # intervals (host s)"
    if "\<not> sw"
    unfolding t using that by (simp add: all)
  show "therapyDuration t = therapyDuration s"
    "autoStopCalls (host t) = autoStopCalls (host s)" "onAutoStop t = onAutoStop s"
    "currentFrequency t = currentFrequency s" "currentVolume t = currentVolume s"
    unfolding t by (simp_all add: all)
qed

section \<open>The synthesizer loops\<close>

lemma forest_loop:
  "k \<le> n \<Longrightarrow>
   filt (forLoop (forestSample rnd n) k (newChannel pinkZero c n)) = pinkMemory (whiteAt rnd c) k \<and>
   calls (forLoop (forestSample rnd n) k (newChannel pinkZero c n)) = c + k \<and>
   length (data (forLoop (forestSample rnd n) k (newChannel pinkZero c n))) = n \<and>
   (\<forall>i<k. data (forLoop (forestSample rnd n) k (newChannel pinkZero c n)) ! i =
            pinkOut (whiteAt rnd c) i * forestWind n i)"
proof (induction k)
  case 0
  show ?case by (simp add: newChannel_def pinkMemory_def)
next
  case (Suc k)
  then show ?case
    by (auto simp: Let_def forestSample_def pinkMemory_def pinkOut_def whiteAt_def
        nth_list_update less_Suc_eq split: prod.splits)
qed

lemma forest_channel:
  "calls (runChannel (forestSample rnd n) pinkZero c n) = c + n"
  "i < n \<Longrightarrow> data (runChannel (forestSample rnd n) pinkZero c n) ! i =
             pinkOut (whiteAt rnd c) i * forestWind n i"
  using forest_loop [of n n rnd c] by (simp_all add: runChannel_def)

lemma forestWind_bounds: "0.4 \<le> forestWind n i \<and> forestWind n i \<le> 1"
proof -
  have "- 1 \<le> sin ((real i / real n) * pi * 4)" "sin ((real i / real n) * pi * 4) \<le> 1"
    by simp_all
  then show ?thesis unfolding forestWind_def by linarith
qed

lemma forestWind_period: "forestWind (2 * m) (i + m) = forestWind (2 * m) i"
proof (cases "m = 0")
  case True
  then show ?thesis by simp
next
  case False
  then have "(real (i + m) / real (2 * m)) * pi * 4 = (real i / real (2 * m)) * pi * 4 + 2 * pi"
    by (simp add: field_simps)
  then show ?thesis unfolding forestWind_def by (simp del: of_nat_add of_nat_mult)
qed

lemma forestWind_low: "forestWind 176400 66150 = 0.4"
proof -
  have "(real 66150 / real 176400) * pi * 4 = 3/2 * pi" by simp
  then have "sin ((real 66150 / real 176400) * pi * 4) = - 1" by (simp only: sin_3over2_pi)
  then show ?thesis unfolding forestWind_def by (simp only:)
qed

section \<open>The timer and the sessions used as inputs\<close>

lemma everySecond_frame:
  "isTherapyPlaying (everySecond k t0 n s) = isTherapyPlaying s"
  "timerInterval (everySecond k t0 n s) = timerInterval s"
  "therapyStartTime (everySecond k t0 n s) = therapyStartTime s"
  "onAutoStop (everySecond k t0 n s) = onAutoStop s"
  "intervals (host (everySecond k t0 n s)) = intervals (host s)"
  "autoStopCalls (host (everySecond k t0 n s)) = autoStopCalls (host s)"
  by (induction n) (simp_all add: everySecond_def timerTick_frame)

lemma everySecond_duration:
  assumes "k \<in> set (intervals (host s))" and "therapyStartTime s = Some start" and "0 < n"
  shows "therapyDuration (everySecond k t0 n s) = (t0 + 1000 * int n - start) div 1000"
proof -
  from assms(3) obtain m where n: "n = Suc m" by (cases n) auto
  have step: "everySecond k t0 (Suc m) s = timerTick k (t0 + 1000 * (int m + 1)) (everySecond k t0 m s)"
    by (simp add: everySecond_def)
  have "k \<in> set (intervals (host (everySecond k t0 m s)))"
    and "therapyStartTime (everySecond k t0 m s) = Some start"
    using assms(1,2) by (simp_all add: everySecond_frame)
  then show ?thesis
    unfolding n step by (simp add: timerTick_effect(1) algebra_simps)
qed

lemma demoEngine_facts:
  "audioContext demoEngine = Some Running" "analyser demoEngine = Some 2"
  "isTherapyPlaying demoEngine = False" "therapySource demoEngine = None"
  "notchFilter demoEngine = None" "therapyGain demoEngine = None"
  "timersSet (host demoEngine) = 0" "intervals (host demoEngine) = []"
  "autoStopCalls (host demoEngine) = 0" "onAutoStop demoEngine = True"
  "currentSound demoEngine = ''whitenoise''" "currentFrequency demoEngine = Number 4000"
  "fftSize (host demoEngine) = 2048" "created (host demoEngine) = 3"
  by (simp_all add: demoEngine_def registerAutoStop_def newEngine_def initAudioContext_def
      newHost_def host_ops Let_def destination_def)

lemma demoEngine_reachable: "reachable demoEngine"
proof -
  have "reachable (final (perform RegisterAutoStop
          (newEngine (Some Running) (newHost 44100 steadyRandom silence))))"
    by (rule reachable.step) (rule reachable.fresh)
  then show ?thesis by (simp add: demoEngine_def)
qed

lemma rainSession_resumed: "rainSession = final (startTherapyResumed ''rain'' False 0 demoEngine)"
  by (simp add: rainSession_def startTherapy_def resumeContext_def andThen_def demoEngine_facts)

lemma rainSession_facts:
  "isTherapyPlaying rainSession" "onAutoStop rainSession"
  "therapyStartTime rainSession = Some 0" "timerInterval rainSession = Some 1"
  "intervals (host rainSession) = [1]" "autoStopCalls (host rainSession) = 0"
  "currentSound rainSession = ''rain''" "currentFrequency rainSession = Number 4000"
  "therapySource rainSession = Some 3"
proof -
  have a: "\<not> (isTherapyPlaying demoEngine \<and> \<not> False)" by (simp add: demoEngine_facts)
  note r = startTherapyResumed_result [OF a demoEngine_facts(1) demoEngine_facts(2),
      of "''rain''" 0, folded rainSession_resumed]
  show "isTherapyPlaying rainSession" by (rule r(2))
  show "onAutoStop rainSession" using r(14) by (simp add: demoEngine_facts)
  show "therapyStartTime rainSession = Some 0" "timerInterval rainSession = Some 1"
    "intervals (host rainSession) = [1]"
    using r(11) by (simp_all add: demoEngine_facts)
  show "autoStopCalls (host rainSession) = 0" using r(13) by (simp add: demoEngine_facts)
  show "currentSound rainSession = ''rain''" by (rule r(9))
  show "currentFrequency rainSession = Number 4000" using r(15) by (simp add: demoEngine_facts)
  show "therapySource rainSession = Some 3" using r(3) by (simp add: demoEngine_facts)
qed

lemma rainSession_reachable: "reachable rainSession"
proof -
  have "reachable (final (perform (StartTherapy ''rain'' False 0) demoEngine))"
    by (rule reachable.step) (rule demoEngine_reachable)
  then show ?thesis by (simp add: rainSession_def)
qed

lemma stopTherapy_idle:
  assumes "therapySource s = None" and "notchFilter s = None" and "therapyGain s = None"
    and "isTherapyPlaying s = False" and "timerInterval s = None"
  shows "stopTherapy s = Done s"
proof -
  have "s\<lparr>isTherapyPlaying := False\<rparr> = s"
    using assms(4) by (cases s) simp
  then show ?thesis
    using assms
    by (simp add: stopTherapy_def andThen_def releaseTherapySource_def releaseNotchFilter_def
        releaseTherapyGain_def stopTimer_def)
qed

lemma playing_has_context:
  assumes "wellFormed s" and "isTherapyPlaying s"
  obtains c an src f g where "audioContext s = Some c" and "analyser s = Some an"
    and "therapySource s = Some src" and "notchFilter s = Some f" and "therapyGain s = Some g"
    and "src < created (host s)" and "src \<in> set (started (host s))"
proof -
  from assms have l: "linked (therapySource s) (notchFilter s) (edges (host s))"
    "linked (therapyGain s) (analyser s) (edges (host s))"
    by (simp_all add: wellFormed_def)
  then obtain src f g an where h: "therapySource s = Some src" "notchFilter s = Some f"
    "therapyGain s = Some g" "analyser s = Some an"
    by (auto simp: linked_def split: option.splits)
  with assms(1) have "audioContext s \<noteq> None"
    by (auto simp: wellFormed_def coherent_def node_sets)
  then obtain c where c: "audioContext s = Some c" by auto
  from assms(1) h have "src < created (host s)" "src \<in> set (started (host s))"
    by (auto simp: wellFormed_def coherent_def node_sets)
  with h c show ?thesis by (rule_tac that) auto
qed

lemma resumeContext_done:
  assumes "audioContext s = Some c"
  obtains c' where "resumeContext s = Done (final (resumeContext s))"
    and "audioContext (final (resumeContext s)) = Some c'"
  using assms by (cases "c = Suspended") (simp_all add: resumeContext_def)

section \<open>The claims\<close>

text \<open>
  C1. The claim: when the elapsed-time counter reaches 1800 seconds, therapy is stopped
  (\<open>isTherapyPlaying\<close> becomes false) and the registered auto-stop callback is invoked
  exactly once. The engine does neither. With the callback registered and therapy
  started at time 0, after the interval has fired once a second for 1800 seconds the
  counter reads 1800, therapy is still playing, the interval is still set, and the
  callback has not been called.
\<close>

theorem C1_timer_runs_past_1800:
  "onAutoStop rainSession \<and> isTherapyPlaying rainSession \<and>
   therapyDuration (everySecond 1 0 1800 rainSession) = 1800 \<and>
   isTherapyPlaying (everySecond 1 0 1800 rainSession) \<and>
   timerInterval (everySecond 1 0 1800 rainSession) = Some 1 \<and>
   autoStopCalls (host (everySecond 1 0 1800 rainSession)) = 0"
proof -
  have "(1::nat) \<in> set (intervals (host rainSession))"
    by (simp add: rainSession_facts)
  then have "therapyDuration (everySecond 1 0 1800 rainSession) = (0 + 1000 * int 1800 - 0) div 1000"
    by (rule everySecond_duration) (simp_all add: rainSession_facts)
  then show ?thesis
    by (simp add: everySecond_frame rainSession_facts)
qed

text \<open>
  C2, as the specification states it, fails: the brown-noise step of the Rain loop is not
  \<open>(prev + k * white) / (1 + k)\<close> with \<open>k = 0.02\<close>. With \<open>prev = 0\<close> and the draw
  \<open>0.75\<close> (white \<open>0.5\<close>) the loop gives \<open>0.01 / 1.002\<close>, the formula \<open>0.01 / 1.02\<close>.
\<close>

theorem C2_counterexample:
  "filt (forLoop (rainSample steadyRandom) 1 (newChannel 0 0 1)) \<noteq>
   leakyIntegrator 0.02 (filt (newChannel 0 0 1)) (whiteAt steadyRandom 0 0)"
  by (simp add: rainSample_def steadyRandom_def newChannel_def leakyIntegrator_def whiteAt_def
      Let_def)

text \<open>
  C2, amended: at every sample index \<open>i\<close> the Rain and the Wave loop compute
  \<open>out = (prev + 0.02 * white) / 1.002\<close>, where \<open>prev\<close> is the output of the sample
  before (\<open>0\<close> at the start of a channel) and \<open>white = 2 * r - 1\<close> for the number \<open>r\<close>
  drawn, which lies in \<open>[-1, 1)\<close> when \<open>r\<close> lies in \<open>[0, 1)\<close>.
\<close>

theorem C2_brown_noise_step:
  "filt (newChannel 0 c n) = 0 \<and>
   filt (forLoop (rainSample rnd) (Suc i) (newChannel 0 c n)) =
     (filt (forLoop (rainSample rnd) i (newChannel 0 c n)) +
      0.02 * (rnd (calls (forLoop (rainSample rnd) i (newChannel 0 c n))) * 2 - 1)) / 1.002 \<and>
   filt (forLoop (waveSample rnd n) (Suc i) (newChannel 0 c n)) =
     (filt (forLoop (waveSample rnd n) i (newChannel 0 c n)) +
      0.02 * (rnd (calls (forLoop (waveSample rnd n) i (newChannel 0 c n))) * 2 - 1)) / 1.002 \<and>
   (0 \<le> rnd j \<and> rnd j < 1 \<longrightarrow> - 1 \<le> rnd j * 2 - 1 \<and> rnd j * 2 - 1 < 1)"
  by (simp add: rainSample_def waveSample_def newChannel_def Let_def)

theorem C2_brown_noise_step_witness:
  "0 \<le> steadyRandom 0 \<and> steadyRandom 0 < 1 \<and>
   - 1 \<le> steadyRandom 0 * 2 - 1 \<and> steadyRandom 0 * 2 - 1 < 1 \<and>
   filt (forLoop (rainSample steadyRandom) (Suc 0) (newChannel 0 0 1)) = 5 / 501"
  using C2_brown_noise_step [of 0 1 steadyRandom 0 0]
  by (simp add: steadyRandom_def newChannel_def)

text \<open>
  C3, as the specification states it, fails: \<open>setFrequency\<close> does not clamp. The input
  \<open>-100\<close> is stored as \<open>-100\<close>, not as \<open>250\<close>.
\<close>

theorem C3_counterexample:
  "currentFrequency (final (setFrequency (Number (- 100)) demoEngine)) = Number (- 100) \<and>
   currentFrequency (final (setFrequency (Number (- 100)) demoEngine)) \<noteq> Number 250"
  by (simp add: setFrequency_def andThen_def Let_def demoEngine_facts
      demoEngine_def registerAutoStop_def newEngine_def initAudioContext_def
      newHost_def host_ops destination_def)

text \<open>
  C3, amended: for every input \<open>f\<close> (a number, or the slider's string), \<open>setFrequency f\<close>
  stores \<open>f\<close> unchanged in \<open>currentFrequency\<close>: inputs below 250 and above 16000 are
  stored as they are, like the inputs in range; and the call returns without throwing on
  every engine a page can hold, so no input is rejected.
\<close>

theorem C3_setFrequency_stores_input:
  assumes "reachable s"
  shows "setFrequency f s = Done (final (setFrequency f s)) \<and>
         currentFrequency (final (setFrequency f s)) = f"
proof -
  from assms have wf: "wellFormed s" by (rule reachable_wellFormed)
  show ?thesis
  proof (cases "audioContext s")
    case None
    with wf have "testOscillator s = None" "notchFilter s = None"
      by (simp_all add: wellFormed_def coherent_def node_sets)
    then show ?thesis
      by (simp add: setFrequency_def andThen_def Let_def)
  next
    case (Some c)
    then show ?thesis
      by (simp add: setFrequency_def andThen_def atCurrentTime_def Let_def
          split: option.splits)
  qed
qed

theorem C3_setFrequency_stores_input_witness:
  "reachable rainSession \<and>
   setFrequency (Number 99999) rainSession =
     Done (final (setFrequency (Number 99999) rainSession)) \<and>
   currentFrequency (final (setFrequency (Number 99999) rainSession)) = Number 99999 \<and>
   currentFrequency (final (setFrequency (Number 4000) rainSession)) = Number 4000 \<and>
   currentFrequency (final (setFrequency (NumericString 4000) rainSession)) = NumericString 4000"
  using C3_setFrequency_stores_input [OF rainSession_reachable, of "Number 99999"]
    C3_setFrequency_stores_input [OF rainSession_reachable, of "Number 4000"]
    C3_setFrequency_stores_input [OF rainSession_reachable, of "NumericString 4000"]
    rainSession_reachable
  by simp

text \<open>
  C4, as the specification states it, fails: the envelope of the Forest buffer leaves
  \<open>[0.7, 1.0]\<close>. In the buffer of 4 seconds at 44100 Hz (176400 samples) the envelope
  at sample 66150 is \<open>0.7 + 0.3 * sin (3 * pi / 2)\<close>, which is about \<open>0.4\<close>.
\<close>

theorem C4_counterexample:
  "forestWind (44100 * 4) 66150 \<le> 0.41 \<and> \<not> (0.7 \<le> forestWind (44100 * 4) 66150)"
  using forestWind_low by simp

text \<open>
  C4, amended: for every sample index \<open>i\<close> of a Forest buffer of length \<open>N\<close>, the sample
  of either channel equals the pink-noise value at \<open>i\<close> (of the white samples that the
  channel draws) multiplied by the envelope \<open>0.7 + 0.3 * sin (4 * pi * i / N)\<close>, which
  completes two full cycles over the buffer (it repeats after \<open>N / 2\<close> samples) and whose
  value always lies in \<open>[0.39, 1.0]\<close>: it swings \<open>0.3\<close> around \<open>0.7\<close>, down to \<open>0.4\<close>
  up to the rounding of the doubles.
\<close>

theorem C4_forest_envelope:
  assumes "i < sr * d"
  shows "fst (fst (createForestBuffer rnd c sr d)) ! i =
           pinkOut (whiteAt rnd c) i * forestWind (sr * d) i \<and>
         snd (fst (createForestBuffer rnd c sr d)) ! i =
           pinkOut (whiteAt rnd (c + sr * d)) i * forestWind (sr * d) i \<and>
         forestWind (sr * d) i = 0.7 + 0.3 * sin (2 * (2 * pi) * (real i / real (sr * d))) \<and>
         forestWind (2 * m) (i + m) = forestWind (2 * m) i \<and>
         0.39 \<le> forestWind (sr * d) i \<and> forestWind (sr * d) i \<le> 1"
proof -
  have "(real i / real (sr * d)) * pi * 4 = 2 * (2 * pi) * (real i / real (sr * d))"
    by (simp del: of_nat_mult)
  then have "forestWind (sr * d) i = 0.7 + 0.3 * sin (2 * (2 * pi) * (real i / real (sr * d)))"
    unfolding forestWind_def by (simp only:)
  then show ?thesis
    using assms forestWind_bounds [of "sr * d" i] forestWind_period [of m i]
    by (simp add: createForestBuffer_def twoChannels_def Let_def forest_channel)
qed

theorem C4_forest_envelope_witness:
  "(66150::nat) < 44100 * 4 \<and>
   fst (fst (createForestBuffer steadyRandom 0 44100 4)) ! 66150 =
     pinkOut (whiteAt steadyRandom 0) 66150 * forestWind (44100 * 4) 66150 \<and>
   0.39 \<le> forestWind (44100 * 4) 66150 \<and> forestWind (44100 * 4) 66150 \<le> 1"
proof -
  have h: "(66150::nat) < 44100 * 4" by simp
  from C4_forest_envelope [OF h, of steadyRandom 0 0] h show ?thesis by blast
qed

text \<open>
  C5. Calling \<open>startTherapy(texture, false)\<close> while therapy is playing stops therapy
  instead of starting it. The call returns, and afterwards \<open>isTherapyPlaying\<close> is false;
  the playing source has been stopped; the source, filter and gain handles are null and
  the graph has lost every connection that left one of the three nodes (and nothing
  else); the timer handle is null and its interval is cleared. No source node and no
  buffer has been created: no node was created, no random number was drawn, no buffer
  was attached.
\<close>

theorem C5_start_while_playing_stops:
  assumes "reachable s" and "isTherapyPlaying s"
  shows "startTherapy ty False now s = Done (final (startTherapy ty False now s)) \<and>
         \<not> isTherapyPlaying (final (startTherapy ty False now s)) \<and>
         therapySource s \<noteq> None \<and> notchFilter s \<noteq> None \<and> therapyGain s \<noteq> None \<and>
         therapySource (final (startTherapy ty False now s)) = None \<and>
         notchFilter (final (startTherapy ty False now s)) = None \<and>
         therapyGain (final (startTherapy ty False now s)) = None \<and>
         set (stopped (host (final (startTherapy ty False now s)))) =
           set (stopped (host s)) \<union> set_option (therapySource s) \<and>
         set (edges (host (final (startTherapy ty False now s)))) =
           {e \<in> set (edges (host s)). Some (fst e) \<noteq> therapySource s \<and>
              Some (fst e) \<noteq> notchFilter s \<and> Some (fst e) \<noteq> therapyGain s} \<and>
         timerInterval (final (startTherapy ty False now s)) = None \<and>
         set (intervals (host (final (startTherapy ty False now s)))) =
           set (intervals (host s)) - set_option (timerInterval s) \<and>
         created (host (final (startTherapy ty False now s))) = created (host s) \<and>
         randomCalls (host (final (startTherapy ty False now s))) = randomCalls (host s) \<and>
         sourceBuffer (host (final (startTherapy ty False now s))) = sourceBuffer (host s)"
proof -
  from assms(1) have wf: "wellFormed s" by (rule reachable_wellFormed)
  from wf assms(2) obtain c an src f g where c: "audioContext s = Some c"
    and h: "therapySource s = Some src" "notchFilter s = Some f" "therapyGain s = Some g"
    by (rule playing_has_context)
  let ?r = "final (resumeContext s)"
  from c obtain c' where r: "resumeContext s = Done ?r" and "audioContext ?r = Some c'"
    by (rule resumeContext_done)
  have playing: "isTherapyPlaying ?r" using assms(2) by (simp add: resumeContext_frame)
  have "wellFormed ?r" using wf by (simp add: wf_resume)
  then have st: "set_option (therapySource ?r) \<subseteq> set (started (host ?r))"
    by (simp add: wellFormed_def)
  have e: "startTherapy ty False now s = stopTherapy ?r"
    unfolding startTherapy_def
    by (subst r) (simp add: andThen_def startTherapyResumed_def playing)
  show ?thesis
    unfolding e using stopTherapy_result [OF st] stopTherapy_teardown [OF st] h
    by (simp add: resumeContext_frame)
qed

theorem C5_start_while_playing_stops_witness:
  "reachable rainSession \<and> isTherapyPlaying rainSession \<and>
   therapySource rainSession = Some 3 \<and> timerInterval rainSession = Some 1 \<and>
   \<not> isTherapyPlaying (final (startTherapy ''rain'' False 5000 rainSession)) \<and>
   therapySource (final (startTherapy ''rain'' False 5000 rainSession)) = None \<and>
   notchFilter (final (startTherapy ''rain'' False 5000 rainSession)) = None \<and>
   therapyGain (final (startTherapy ''rain'' False 5000 rainSession)) = None \<and>
   3 \<in> set (stopped (host (final (startTherapy ''rain'' False 5000 rainSession)))) \<and>
   timerInterval (final (startTherapy ''rain'' False 5000 rainSession)) = None \<and>
   set (intervals (host (final (startTherapy ''rain'' False 5000 rainSession)))) = {} \<and>
   created (host (final (startTherapy ''rain'' False 5000 rainSession))) =
     created (host rainSession)"
  using C5_start_while_playing_stops [OF rainSession_reachable rainSession_facts(1),
      of "''rain''" 5000]
    rainSession_reachable rainSession_facts
  by simp

text \<open>
  C6. A live sound switch (\<open>startTherapy\<close> with \<open>isSwitching = true\<close> while therapy is
  playing) replaces only the source node: the call returns, the notch filter and the
  therapy gain handles are the same objects as before, exactly one node (the new source,
  a different object from the old one) has been created, \<open>isTherapyPlaying\<close> is still
  true, and the session timer (start time, elapsed seconds, interval) is untouched.
\<close>

theorem C6_switch_replaces_source_only:
  assumes "reachable s" and "isTherapyPlaying s"
  shows "startTherapy ty True now s = Done (final (startTherapy ty True now s)) \<and>
         notchFilter (final (startTherapy ty True now s)) = notchFilter s \<and>
         notchFilter s \<noteq> None \<and>
         therapyGain (final (startTherapy ty True now s)) = therapyGain s \<and>
         therapyGain s \<noteq> None \<and>
         therapySource (final (startTherapy ty True now s)) = Some (created (host s)) \<and>
         therapySource (final (startTherapy ty True now s)) \<noteq> therapySource s \<and>
         created (host (final (startTherapy ty True now s))) = Suc (created (host s)) \<and>
         isTherapyPlaying (final (startTherapy ty True now s)) \<and>
         therapyStartTime (final (startTherapy ty True now s)) = therapyStartTime s \<and>
         therapyDuration (final (startTherapy ty True now s)) = therapyDuration s \<and>
         timerInterval (final (startTherapy ty True now s)) = timerInterval s \<and>
         intervals (host (final (startTherapy ty True now s))) = intervals (host s)"
proof -
  from assms(1) have wf: "wellFormed s" by (rule reachable_wellFormed)
  from wf assms(2) obtain c an src f g where c: "audioContext s = Some c"
    and h: "analyser s = Some an" "therapySource s = Some src" "notchFilter s = Some f"
      "therapyGain s = Some g" "src < created (host s)"
    by (rule playing_has_context)
  let ?r = "final (resumeContext s)"
  from c obtain c' where r: "resumeContext s = Done ?r" and c': "audioContext ?r = Some c'"
    by (rule resumeContext_done)
  have e: "startTherapy ty True now s = startTherapyResumed ty True now ?r"
    unfolding startTherapy_def by (subst r) (simp add: andThen_def)
  have a: "\<not> (isTherapyPlaying ?r \<and> \<not> True)" by simp
  have an: "analyser ?r = Some an" using h(1) by (simp add: resumeContext_frame)
  note res = startTherapyResumed_result [OF a c' an, of ty now]
  have nf: "notchFilter ?r \<noteq> None" and tg: "therapyGain ?r \<noteq> None"
    using h by (simp_all add: resumeContext_frame)
  show ?thesis
    unfolding e
    using res(1,2,3,12) res(6) [OF nf] res(7) [OF tg] res(8) [OF nf tg] res(10) h
    by (simp add: resumeContext_frame)
qed

theorem C6_switch_replaces_source_only_witness:
  "reachable rainSession \<and> isTherapyPlaying rainSession \<and>
   notchFilter (final (startTherapy ''forest'' True 5000 rainSession)) = notchFilter rainSession \<and>
   therapyGain (final (startTherapy ''forest'' True 5000 rainSession)) = therapyGain rainSession \<and>
   isTherapyPlaying (final (startTherapy ''forest'' True 5000 rainSession)) \<and>
   therapyStartTime (final (startTherapy ''forest'' True 5000 rainSession)) = Some 0 \<and>
   timerInterval (final (startTherapy ''forest'' True 5000 rainSession)) = Some 1"
  using C6_switch_replaces_source_only [OF rainSession_reachable rainSession_facts(1),
      of "''forest''" 5000]
    rainSession_reachable rainSession_facts
  by simp

text \<open>
  C7. \<open>stopTherapy()\<close> never raises and is idempotent: on every engine a page can hold
  (one whose therapy was never started included) the call returns, afterwards
  \<open>isTherapyPlaying\<close> is false and the source, filter and gain handles are null, and a
  second call right after returns too and leaves the engine as the first call left it.
\<close>

theorem C7_stopTherapy_idempotent:
  assumes "reachable s"
  shows "stopTherapy s = Done (final (stopTherapy s)) \<and>
         \<not> isTherapyPlaying (final (stopTherapy s)) \<and>
         therapySource (final (stopTherapy s)) = None \<and>
         notchFilter (final (stopTherapy s)) = None \<and>
         therapyGain (final (stopTherapy s)) = None \<and>
         stopTherapy (final (stopTherapy s)) = Done (final (stopTherapy s))"
proof -
  from assms have "wellFormed s" by (rule reachable_wellFormed)
  then have st: "set_option (therapySource s) \<subseteq> set (started (host s))"
    by (simp add: wellFormed_def)
  note res = stopTherapy_result [OF st]
  have "stopTherapy (final (stopTherapy s)) = Done (final (stopTherapy s))"
    using res(2-6) by (rule stopTherapy_idle)
  with res(1-5) show ?thesis by simp
qed

theorem C7_stopTherapy_idempotent_witness:
  "reachable demoEngine \<and> therapySource demoEngine = None \<and>
   stopTherapy demoEngine = Done (final (stopTherapy demoEngine)) \<and>
   \<not> isTherapyPlaying (final (stopTherapy demoEngine)) \<and>
   stopTherapy (final (stopTherapy demoEngine)) = Done (final (stopTherapy demoEngine))"
  using C7_stopTherapy_idempotent [OF demoEngine_reachable] demoEngine_reachable
    demoEngine_facts(4)
  by simp

text \<open>
  C8, as the specification states it, fails: \<open>getAnalyserData\<close> does not return the
  "no data" value whenever therapy is not playing. On a new engine, whose therapy is
  not playing, it returns a snapshot.
\<close>

theorem C8_counterexample:
  "\<not> isTherapyPlaying demoEngine \<and> fst (getAnalyserData demoEngine) \<noteq> None"
  by (simp add: getAnalyserData_def Let_def demoEngine_facts)

text \<open>
  C8, amended: \<open>getAnalyserData\<close> returns \<open>null\<close> exactly when the engine has no
  analyser (the audio context could not be created); otherwise, whether therapy is
  playing or not, it returns the analyser's time-domain snapshot as a byte array of
  \<open>frequencyBinCount = fftSize / 2\<close> entries. The call leaves the engine (therapy
  state and processing graph) as it was.
\<close>

theorem C8_getAnalyserData:
  "snd (getAnalyserData s) = s \<and>
   (fst (getAnalyserData s) = None \<longleftrightarrow> analyser s = None) \<and>
   (analyser s \<noteq> None \<longrightarrow>
      fst (getAnalyserData s) =
        Some (fftSize (host s) div 2, map (timeDomain (host s)) [0..<fftSize (host s) div 2]) \<and>
      length (map (timeDomain (host s)) [0..<fftSize (host s) div 2]) = fftSize (host s) div 2)"
  by (cases "analyser s") (simp_all add: getAnalyserData_def Let_def)

theorem C8_getAnalyserData_witness:
  "analyser rainSession \<noteq> None \<and> isTherapyPlaying rainSession \<and>
   snd (getAnalyserData rainSession) = rainSession \<and>
   fst (getAnalyserData rainSession) =
     Some (fftSize (host rainSession) div 2,
           map (timeDomain (host rainSession)) [0..<fftSize (host rainSession) div 2])"
proof -
  have "wellFormed rainSession" using rainSession_reachable by (rule reachable_wellFormed)
  then obtain an where h: "analyser rainSession = Some an"
    using rainSession_facts(1) by (rule playing_has_context)
  then have "analyser rainSession \<noteq> None" by simp
  with C8_getAnalyserData [of rainSession] rainSession_facts(1) show ?thesis by blast
qed

text \<open>
  C9. Every public operation preserves the processing-graph invariant: on a new engine,
  and after any sequence of calls of the engine's methods and of the page's entry points
  (each from its start to its return or throw, an async method also up to and from its
  \<open>await\<close>), whenever \<open>isTherapyPlaying\<close> is true the source, filter and gain handles
  are non-null and connected source to filter to gain to analyser, and whenever it is
  false the three handles are null and nothing is connected to the analyser.
\<close>

theorem C9_graph_invariant:
  assumes "reachable s"
  shows "graphInvariant s \<and> graphInvariant (final (perform c s))"
proof -
  from assms have "wellFormed s" by (rule reachable_wellFormed)
  then have "wellFormed (final (perform c s))" by (rule wf_perform)
  with \<open>wellFormed s\<close> show ?thesis by (simp add: wf_graph)
qed

theorem C9_graph_invariant_witness:
  "reachable rainSession \<and> isTherapyPlaying rainSession \<and> graphInvariant rainSession \<and>
   graphInvariant (final (perform StopTherapy rainSession))"
  using C9_graph_invariant [OF rainSession_reachable, of StopTherapy] rainSession_reachable
    rainSession_facts(1)
  by simp

text \<open>
  C10. When \<open>startTherapy(t, false)\<close> is called while therapy is playing (the toggle-stop
  path), \<open>currentSound\<close>, \<open>currentFrequency\<close> and \<open>currentVolume\<close> are left unchanged; in
  particular \<open>currentSound\<close> is not set to the argument \<open>t\<close>.
\<close>

theorem C10_toggle_stop_keeps_settings:
  assumes "isTherapyPlaying s"
  shows "currentSound (final (startTherapy ty False now s)) = currentSound s \<and>
         currentFrequency (final (startTherapy ty False now s)) = currentFrequency s \<and>
         currentVolume (final (startTherapy ty False now s)) = currentVolume s"
proof (cases "resumeContext s")
  case (Done r)
  then have r: "r = final (resumeContext s)" by simp
  have "isTherapyPlaying r" using assms unfolding r by (simp add: resumeContext_frame)
  then have "startTherapy ty False now s = stopTherapy r"
    by (simp add: startTherapy_def Done andThen_def startTherapyResumed_def)
  then show ?thesis
    by (simp add: stopTherapy_settings) (simp add: r resumeContext_frame)
next
  case (Raised e r)
  then have r: "r = final (resumeContext s)" by simp
  have "final (startTherapy ty False now s) = r"
    by (simp add: startTherapy_def Raised andThen_def)
  then show ?thesis by (simp add: r resumeContext_frame)
qed

theorem C10_toggle_stop_keeps_settings_witness:
  "isTherapyPlaying rainSession \<and>
   currentSound (final (startTherapy ''forest'' False 5000 rainSession)) = ''rain'' \<and>
   currentFrequency (final (startTherapy ''forest'' False 5000 rainSession)) = Number 4000"
  using C10_toggle_stop_keeps_settings [OF rainSession_facts(1), of "''forest''" 5000]
    rainSession_facts
  by simp

end
